theory Spec2Isabelle
  imports Complex_Main "HOL-Library.AList" "HOL-Library.Char_ord" "HOL-Library.List_Lexorder"
begin

section \<open>The contest driver \<^verbatim>\<open>pacman_contest_cluster.py\<close>\<close>

text \<open>
  The script has two parts: \<^verbatim>\<open>load_settings\<close>, which layers the built-in defaults, a
  JSON configuration file and the command line options into one settings dictionary, and
  the \<^verbatim>\<open>__main__\<close> block, which builds the worker hosts from the roster file and drives
  every contest of the run (run remotely, archive, report, clean up).

  The model follows the script line by line. Every \<^verbatim>\<open>sys.exit\<close> and every exception
  the script does not catch is a value of type \<open>error\<close>; logging and printing are
  collected in a list of messages; the file system is a function from paths to entries,
  returned updated where the script writes; calls into the modules the script imports
  (\<^verbatim>\<open>cluster_manager\<close>, \<^verbatim>\<open>multi_contest\<close>, \<^verbatim>\<open>pacman_html_generator\<close>) are answered by an
  oracle and recorded, with their replies, in a trace.
\<close>

subsection \<open>Python values\<close>

text \<open>
  A Python \<^verbatim>\<open>float\<close> as \<^verbatim>\<open>json.load\<close> produces it: a finite double is a rational
  number; \<^verbatim>\<open>NaN\<close>, \<^verbatim>\<open>Infinity\<close> and \<^verbatim>\<open>-Infinity\<close> are accepted by \<^verbatim>\<open>json.load\<close> too.
\<close>

datatype pyfloat = Finite rat | NaN | PosInf | NegInf

text \<open>
  The values of the settings dictionary and of the JSON files: \<^verbatim>\<open>None\<close>, \<^verbatim>\<open>bool\<close>, \<^verbatim>\<open>int\<close>,
  \<^verbatim>\<open>float\<close>, \<^verbatim>\<open>str\<close>, \<^verbatim>\<open>list\<close> and \<^verbatim>\<open>dict\<close> (the members of an object, in the order of
  the file).
\<close>

datatype json =
    JNull
  | JBool bool
  | JInt int
  | JFloat pyfloat
  | JStr string
  | JArr "json list"
  | JObj "(string \<times> json) list"

text \<open>
  A Python \<^verbatim>\<open>dict\<close> with \<^verbatim>\<open>str\<close> keys is an association list in insertion order:
  \<^verbatim>\<open>d[k] = v\<close> replaces the value of a key already there and appends a new key,
  \<^verbatim>\<open>{**a, **b}\<close> stores the items of \<^verbatim>\<open>b\<close> into a copy of \<^verbatim>\<open>a\<close>, one \<^verbatim>\<open>d[k] = v\<close> each.
\<close>

type_synonym pydict = "(string \<times> json) list"

definition dict_get :: "pydict \<Rightarrow> string \<Rightarrow> json option" where
  "dict_get d k = map_of d k"

definition dict_set :: "string \<Rightarrow> json \<Rightarrow> pydict \<Rightarrow> pydict" where
  "dict_set k v d = AList.update k v d"

definition dict_del :: "string \<Rightarrow> pydict \<Rightarrow> pydict" where
  "dict_del k d = AList.delete k d"

definition dict_merge :: "pydict \<Rightarrow> (string \<times> json) list \<Rightarrow> pydict" where
  "dict_merge a b = fold (\<lambda>(k, v). dict_set k v) b a"

text \<open>
  The \<^verbatim>\<open>dict\<close> that \<^verbatim>\<open>json.load\<close> builds from the members of an object: a key that is
  repeated keeps its first position and its last value.
\<close>

definition py_dict_of :: "(string \<times> json) list \<Rightarrow> pydict" where
  "py_dict_of items = dict_merge [] items"

text \<open>
  \<^verbatim>\<open>v == n\<close> for a value \<^verbatim>\<open>v\<close> and an \<^verbatim>\<open>int\<close> \<^verbatim>\<open>n\<close>: numbers compare by value (\<^verbatim>\<open>True\<close> is 1,
  \<^verbatim>\<open>False\<close> is 0, a float equals the integer of the same value), every other value differs
  from every \<^verbatim>\<open>int\<close>.
\<close>

fun py_eq_int :: "json \<Rightarrow> int \<Rightarrow> bool" where
  "py_eq_int (JInt m) n = (m = n)"
| "py_eq_int (JBool b) n = ((if b then 1 else 0) = n)"
| "py_eq_int (JFloat (Finite q)) n = (q = of_int n)"
| "py_eq_int _ n = False"

text \<open>
  \<^verbatim>\<open>j[k]\<close> for a \<^verbatim>\<open>str\<close> key \<^verbatim>\<open>k\<close>: a \<^verbatim>\<open>dict\<close> looks the key up (\<^verbatim>\<open>KeyError\<close> when it is missing),
  a list or a string takes integer indices only, the other values are not subscriptable
  (\<^verbatim>\<open>TypeError\<close>).
\<close>

datatype error =
    SystemExit int
  | KeyError string
  | TypeError
  | ValueError
  | OSError
  | OverflowError
  | AttributeError
  | ExternalError

text \<open>
  The exit status of the process: the argument of \<^verbatim>\<open>sys.exit\<close>, and 1 for an exception
  that nothing catches.
\<close>

fun exit_status :: "error \<Rightarrow> int" where
  "exit_status (SystemExit n) = n"
| "exit_status _ = 1"

fun subscript :: "json \<Rightarrow> string \<Rightarrow> error + json" where
  "subscript (JObj items) k =
     (case dict_get (py_dict_of items) k of Some v \<Rightarrow> Inr v | None \<Rightarrow> Inl (KeyError k))"
| "subscript _ k = Inl TypeError"

text \<open>\<^verbatim>\<open>s.split(",")\<close>: the pieces between the commas, empty pieces included.\<close>

fun str_split :: "char \<Rightarrow> string \<Rightarrow> string list" where
  "str_split c [] = [[]]"
| "str_split c (x # xs) =
     (if x = c then [] # str_split c xs
      else (case str_split c xs of [] \<Rightarrow> [[x]] | w # ws \<Rightarrow> (x # w) # ws))"

text \<open>\<^verbatim>\<open>os.path.join(a, b)\<close> of \<^verbatim>\<open>posixpath\<close>.\<close>

definition path_join :: "string \<Rightarrow> string \<Rightarrow> string" where
  "path_join a b =
     (if (case b of [] \<Rightarrow> False | c # _ \<Rightarrow> c = CHR ''/'') then b
      else if a = [] \<or> last a = CHR ''/'' then a @ b
      else a @ ''/'' @ b)"

text \<open>
  \<^verbatim>\<open>json.dump(..., sort_keys=True)\<close> followed by \<^verbatim>\<open>json.load\<close>: the same value, the keys
  of every object sorted.
\<close>

primrec sort_keys :: "json \<Rightarrow> json" where
  "sort_keys JNull = JNull"
| "sort_keys (JBool b) = JBool b"
| "sort_keys (JInt n) = JInt n"
| "sort_keys (JFloat x) = JFloat x"
| "sort_keys (JStr s) = JStr s"
| "sort_keys (JArr xs) = JArr (map sort_keys xs)"
| "sort_keys (JObj kvs) = JObj (sort_key fst (map (map_prod id sort_keys) kvs))"

subsection \<open>The environment of the script\<close>

text \<open>
  The module \<^verbatim>\<open>config\<close> (\<^verbatim>\<open>from config import *\<close>) is not part of the script: its
  constants are parameters.
\<close>

record config =
  DEFAULT_FIXED_LAYOUTS :: json
  DEFAULT_RANDOM_LAYOUTS :: json
  DEFAULT_MAX_STEPS :: json
  DEFAULT_LAYOUTS_ZIP_FILE :: json
  DEFAULT_CONFIG_FILE :: string

text \<open>
  A path of the file system is missing, or exists and cannot be opened or parsed (a
  directory, a file without read permission, malformed JSON: \<^verbatim>\<open>open\<close> or \<^verbatim>\<open>json.load\<close>
  raises), or holds a JSON text, given by the value \<^verbatim>\<open>json.load\<close> returns for it.
\<close>

datatype fs_entry = Missing | Broken error | Content json

text \<open>
  What the script reads from its process: \<^verbatim>\<open>sys.argv\<close>, the file system, which paths
  \<^verbatim>\<open>open(path, "w")\<close> can create or truncate, what can be read from the open file
  descriptors of the process (\<open>Missing\<close> for a number that is no open descriptor), and
  Python's \<^verbatim>\<open>int\<close> on a string (\<open>None\<close> where it raises \<^verbatim>\<open>ValueError\<close>).
\<close>

record sys =
  argv :: "string list"
  fs :: "string \<Rightarrow> fs_entry"
  writable :: "string \<Rightarrow> bool"
  descriptors :: "int \<Rightarrow> fs_entry"
  py_int :: "string \<Rightarrow> int option"

text \<open>
  The namespace \<^verbatim>\<open>parser.parse_args()\<close> returns: an option that takes a value is \<open>None\<close>
  when it was not passed (\<^verbatim>\<open>--organizer\<close> and \<^verbatim>\<open>--split\<close> have defaults of their own), a
  \<^verbatim>\<open>store_true\<close> flag is a \<^verbatim>\<open>bool\<close>, \<^verbatim>\<open>--split\<close> is an \<^verbatim>\<open>int\<close>. The model starts where
  \<^verbatim>\<open>parse_args\<close> has returned.
\<close>

record args =
  config_file :: "string option"
  organizer :: string
  www_dir :: "string option"
  stats_archive_dir :: "string option"
  replays_archive_dir :: "string option"
  logs_archive_dir :: "string option"
  compress_logs :: bool
  workers_file :: "string option"
  teams_root :: "string option"
  team_names_file :: "string option"
  staff_teams_dir :: "string option"
  staff_teams_vs_others_only :: bool
  max_steps :: "string option"
  no_fixed_layouts :: "string option"
  fixed_layout_seeds :: "string option"
  fixed_layouts_file :: "string option"
  no_random_layouts :: "string option"
  random_layout_seeds :: "string option"
  resume_contest_folder :: "string option"
  allow_non_registered_students :: bool
  build_config_file :: "string option"
  upload_replays :: bool
  upload_logs :: bool
  upload_all :: bool
  split :: int

text \<open>The namespace of a command line without options.\<close>

definition default_args :: args where
  "default_args =
     \<lparr> config_file = None, organizer = ''Uni Pacman'', www_dir = None,
       stats_archive_dir = None, replays_archive_dir = None, logs_archive_dir = None,
       compress_logs = False, workers_file = None, teams_root = None,
       team_names_file = None, staff_teams_dir = None, staff_teams_vs_others_only = False,
       max_steps = None, no_fixed_layouts = None, fixed_layout_seeds = None,
       fixed_layouts_file = None, no_random_layouts = None, random_layout_seeds = None,
       resume_contest_folder = None, allow_non_registered_students = False,
       build_config_file = None, upload_replays = False, upload_logs = False,
       upload_all = False, split = 0 \<rparr>"

text \<open>
  \<^verbatim>\<open>sys.argv\<close> and the namespace belong to one command line: when \<^verbatim>\<open>sys.argv\<close> holds the
  script's name only, no option was passed.
\<close>

definition argv_consistent :: "sys \<Rightarrow> args \<Rightarrow> bool" where
  "argv_consistent s a = (if length (argv s) = 1 then a = default_args else True)"

text \<open>What the script prints and logs.\<close>

datatype message =
    Print_no_arguments
  | Log_debug_resume_loaded
  | Log_error_resume_missing string
  | Log_error_split_mismatch int json
  | Log_warning_config_ignored
  | Log_debug_config_loaded
  | Log_error_config_missing string
  | Log_error_missing_parameters "string list"
  | Print_help
  | Log_info_dump string
  | Log_info_workers json
  | Log_info_options pydict
  | Log_info_done

subsection \<open>\<^verbatim>\<open>load_settings\<close>\<close>

text \<open>Lines 176 to 193: the default settings.\<close>

definition settings_default :: "config \<Rightarrow> args \<Rightarrow> pydict" where
  "settings_default cfg a =
     [ (''no_fixed_layouts'', DEFAULT_FIXED_LAYOUTS cfg),
       (''no_random_layouts'', DEFAULT_RANDOM_LAYOUTS cfg),
       (''max_steps'', DEFAULT_MAX_STEPS cfg),
       (''fixed_layouts_file'', DEFAULT_LAYOUTS_ZIP_FILE cfg),
       (''resume_contest_folder'', JNull),
       (''include_staff_team'', JBool False),
       (''staff_teams_dir'', JNull),
       (''staff_teams_vs_others_only'', JBool False),
       (''ignore_file_name_format'', JBool True),
       (''team_names_file'', JNull),
       (''upload_replays'', JBool (upload_replays a)),
       (''upload_logs'', JBool (upload_logs a)),
       (''allow_non_registered_students'', JBool (allow_non_registered_students a)),
       (''split'', JInt (split a)) ]"

text \<open>\<^verbatim>\<open>os.path.exists\<close>, and \<^verbatim>\<open>open\<close> followed by \<^verbatim>\<open>json.load\<close>.\<close>

definition path_exists :: "(string \<Rightarrow> fs_entry) \<Rightarrow> string \<Rightarrow> bool" where
  "path_exists f p = (f p \<noteq> Missing)"

definition load_json :: "(string \<Rightarrow> fs_entry) \<Rightarrow> string \<Rightarrow> error + json" where
  "load_json f p = (case f p of Missing \<Rightarrow> Inl OSError | Broken e \<Rightarrow> Inl e | Content j \<Rightarrow> Inr j)"

text \<open>
  Lines 199 to 216: with a resume folder, the configuration stored in it becomes
  \<^verbatim>\<open>settings_json\<close>, and a \<^verbatim>\<open>--split\<close> that differs from the stored one stops the script.
\<close>

definition resume_stage :: "config \<Rightarrow> sys \<Rightarrow> args \<Rightarrow> message list \<times> (error + json)" where
  "resume_stage cfg s a =
     (case resume_contest_folder a of
        None \<Rightarrow> ([], Inr (JObj []))
      | Some d \<Rightarrow>
          (let config_json_file = path_join d (DEFAULT_CONFIG_FILE cfg) in
           if path_exists (fs s) config_json_file then
             (case load_json (fs s) config_json_file of
                Inl e \<Rightarrow> ([], Inl e)
              | Inr settings_json \<Rightarrow>
                  if split a \<noteq> 0 then
                    (case subscript settings_json ''split'' of
                       Inl e \<Rightarrow> ([Log_debug_resume_loaded], Inl e)
                     | Inr v \<Rightarrow>
                         if \<not> py_eq_int v (split a) then
                           ([Log_debug_resume_loaded, Log_error_split_mismatch (split a) v],
                            Inl (SystemExit 1))
                         else ([Log_debug_resume_loaded], Inr settings_json))
                  else ([Log_debug_resume_loaded], Inr settings_json))
           else ([Log_error_resume_missing config_json_file], Inl (SystemExit 1))))"

text \<open>
  Lines 218 to 235: a \<^verbatim>\<open>--config-file\<close> is loaded unless a resume folder was given, in
  which case it is only reported as ignored.
\<close>

definition config_stage :: "sys \<Rightarrow> args \<Rightarrow> json \<Rightarrow> message list \<times> (error + json)" where
  "config_stage s a settings_json =
     (case config_file a of
        None \<Rightarrow> ([], Inr settings_json)
      | Some p \<Rightarrow>
          if resume_contest_folder a \<noteq> None then ([Log_warning_config_ignored], Inr settings_json)
          else if path_exists (fs s) p then
            (case load_json (fs s) p of
               Inl e \<Rightarrow> ([], Inl e)
             | Inr j \<Rightarrow> ([Log_debug_config_loaded], Inr j))
          else ([Log_error_config_missing p], Inl (SystemExit 1)))"

text \<open>Lines 196 to 235: \<^verbatim>\<open>settings_json\<close>, the configuration read from a file.\<close>

definition load_config :: "config \<Rightarrow> sys \<Rightarrow> args \<Rightarrow> message list \<times> (error + json)" where
  "load_config cfg s a =
     (case resume_stage cfg s a of
        (out1, Inl e) \<Rightarrow> (out1, Inl e)
      | (out1, Inr j) \<Rightarrow>
          (case config_stage s a j of (out2, r) \<Rightarrow> (out1 @ out2, r)))"

text \<open>
  The steps that fill \<^verbatim>\<open>settings_cli\<close>. \<^verbatim>\<open>if args.x: settings_cli[k] = args.x\<close> stores an
  option that was passed with a non-empty value; \<^verbatim>\<open>int(args.x)\<close> may raise \<^verbatim>\<open>ValueError\<close>.
\<close>

fun given :: "string option \<Rightarrow> bool" where
  "given None = False"
| "given (Some s) = (s \<noteq> [])"

definition set_str :: "string \<Rightarrow> string option \<Rightarrow> pydict \<Rightarrow> pydict" where
  "set_str k x c = (case x of None \<Rightarrow> c | Some s \<Rightarrow> if s \<noteq> [] then dict_set k (JStr s) c else c)"

definition set_flag :: "string \<Rightarrow> bool \<Rightarrow> pydict \<Rightarrow> pydict" where
  "set_flag k b c = (if b then dict_set k (JBool b) c else c)"

definition set_int :: "(string \<Rightarrow> int option) \<Rightarrow> string \<Rightarrow> string option \<Rightarrow> pydict \<Rightarrow> error + pydict" where
  "set_int to_int k x c =
     (case x of
        None \<Rightarrow> Inr c
      | Some s \<Rightarrow>
          if s \<noteq> [] then
            (case to_int s of None \<Rightarrow> Inl ValueError | Some n \<Rightarrow> Inr (dict_set k (JInt n) c))
          else Inr c)"

text \<open>\<^verbatim>\<open>[int(x) for x in xs]\<close>: the first string that is no integer raises.\<close>

fun int_list :: "(string \<Rightarrow> int option) \<Rightarrow> string list \<Rightarrow> error + json list" where
  "int_list to_int [] = Inr []"
| "int_list to_int (x # xs) =
     (case to_int x of
        None \<Rightarrow> Inl ValueError
      | Some n \<Rightarrow> (case int_list to_int xs of Inl e \<Rightarrow> Inl e | Inr ns \<Rightarrow> Inr (JInt n # ns)))"

definition set_int_list :: "(string \<Rightarrow> int option) \<Rightarrow> string \<Rightarrow> string option \<Rightarrow> pydict \<Rightarrow> error + pydict" where
  "set_int_list to_int k x c =
     (case x of
        None \<Rightarrow> Inr c
      | Some s \<Rightarrow>
          if s \<noteq> [] then
            (case int_list to_int (str_split CHR '','' s) of
               Inl e \<Rightarrow> Inl e
             | Inr ns \<Rightarrow> Inr (dict_set k (JArr ns) c))
          else Inr c)"

definition set_str_list :: "string \<Rightarrow> string option \<Rightarrow> pydict \<Rightarrow> pydict" where
  "set_str_list k x c =
     (case x of
        None \<Rightarrow> c
      | Some s \<Rightarrow> if s \<noteq> [] then dict_set k (JArr (map JStr (str_split CHR '','' s))) c else c)"

text \<open>Lines 238 to 266: the options that are stored as they are.\<close>

definition collect_plain :: "args \<Rightarrow> pydict \<Rightarrow> pydict" where
  "collect_plain a c0 =
     (let c = set_str ''organizer'' (Some (organizer a)) c0;
          c = set_str ''www_dir'' (www_dir a) c;
          c = set_flag ''compress_logs'' (compress_logs a) c;
          c = set_str ''workers_file'' (workers_file a) c;
          c = (if given (staff_teams_dir a)
               then dict_set ''include_staff_team'' (JBool True)
                      (set_str ''staff_teams_dir'' (staff_teams_dir a) c)
               else c);
          c = (if staff_teams_vs_others_only a
               then dict_set ''staff_teams_vs_others_only'' (JBool True) c else c);
          c = set_str ''teams_root'' (teams_root a) c;
          c = (if given (team_names_file a)
               then dict_set ''ignore_file_name_format'' (JBool False)
                      (set_str ''team_names_file'' (team_names_file a) c)
               else c);
          c = set_str ''stats_archive_dir'' (stats_archive_dir a) c;
          c = set_str ''replays_archive_dir'' (replays_archive_dir a) c;
          c = set_str ''logs_archive_dir'' (logs_archive_dir a) c
      in c)"

text \<open>Lines 268 to 281: the layout options and the step limit.\<close>

definition collect_layouts :: "(string \<Rightarrow> int option) \<Rightarrow> args \<Rightarrow> pydict \<Rightarrow> error + pydict" where
  "collect_layouts to_int a c0 =
     (case set_int to_int ''no_fixed_layouts'' (no_fixed_layouts a) c0 of
        Inl e \<Rightarrow> Inl e
      | Inr c1 \<Rightarrow>
     (case set_int to_int ''no_random_layouts'' (no_random_layouts a)
             (set_str_list ''fixed_layout_seeds'' (fixed_layout_seeds a) c1) of
        Inl e \<Rightarrow> Inl e
      | Inr c2 \<Rightarrow>
     (case set_int_list to_int ''random_layout_seeds'' (random_layout_seeds a) c2 of
        Inl e \<Rightarrow> Inl e
      | Inr c3 \<Rightarrow> set_int to_int ''max_steps'' (max_steps a) c3)))"

text \<open>Lines 283 to 297: the upload flags, the registration flag and the split.\<close>

definition collect_flags :: "args \<Rightarrow> pydict \<Rightarrow> pydict" where
  "collect_flags a c0 =
     (let c = (if upload_all a
               then dict_set ''upload_logs'' (JBool True) (dict_set ''upload_replays'' (JBool True) c0)
               else set_flag ''upload_logs'' (upload_logs a)
                      (set_flag ''upload_replays'' (upload_replays a) c0));
          c = set_flag ''allow_non_registered_students'' (allow_non_registered_students a) c;
          c = (if split a \<noteq> 0 then dict_set ''split'' (JInt (split a)) c else c)
      in c)"

text \<open>
  \<^verbatim>\<open>settings_cli\<close>: line 200 stores the resume folder first, lines 238 to 297 the other
  options.
\<close>

definition settings_cli :: "(string \<Rightarrow> int option) \<Rightarrow> args \<Rightarrow> error + pydict" where
  "settings_cli to_int a =
     (let c0 = (case resume_contest_folder a of
                  None \<Rightarrow> []
                | Some d \<Rightarrow> dict_set ''resume_contest_folder'' (JStr d) [])
      in case collect_layouts to_int a (collect_plain a c0) of
           Inl e \<Rightarrow> Inl e
         | Inr c \<Rightarrow> Inr (collect_flags a c))"

text \<open>
  Lines 299 to 302: the three layers are merged, the later winning, and a split of 0
  becomes 1. \<^verbatim>\<open>**settings_json\<close> needs a \<^verbatim>\<open>dict\<close>.
\<close>

definition merge_settings :: "pydict \<Rightarrow> json \<Rightarrow> pydict \<Rightarrow> error + pydict" where
  "merge_settings dflt settings_json cli =
     (case settings_json of
        JObj items \<Rightarrow>
          (let settings = dict_merge (dict_merge dflt (py_dict_of items)) cli in
           Inr (if (case dict_get settings ''split'' of None \<Rightarrow> True | Some v \<Rightarrow> py_eq_int v 0)
                then dict_set ''split'' (JInt 1) settings
                else settings))
      | _ \<Rightarrow> Inl TypeError)"

text \<open>
  Lines 303 to 310: the required parameters, an empty set in this version, that the
  settings lack.
\<close>

definition missing_parameters :: "pydict \<Rightarrow> string list" where
  "missing_parameters settings = filter (\<lambda>k. k \<notin> set (map fst settings)) []"

text \<open>
  Lines 312 to 316: the settings are written to \<^verbatim>\<open>--build-config-file\<close>; \<^verbatim>\<open>open\<close> raises
  when the file cannot be written.
\<close>

definition dump_settings ::
  "sys \<Rightarrow> args \<Rightarrow> pydict \<Rightarrow> message list \<times> (string \<Rightarrow> fs_entry) \<times> (error + pydict)" where
  "dump_settings s a settings =
     (case build_config_file a of
        None \<Rightarrow> ([], fs s, Inr settings)
      | Some p \<Rightarrow>
          if p \<noteq> [] then
            (if writable s p
             then ([Log_info_dump p], (fs s)(p := Content (sort_keys (JObj settings))), Inr settings)
             else ([Log_info_dump p], fs s, Inl OSError))
          else ([], fs s, Inr settings))"

text \<open>
  \<^verbatim>\<open>load_settings\<close>: what it logs, the file system it leaves, and the settings it returns
  or the error that ends it.
\<close>

definition load_settings ::
  "config \<Rightarrow> sys \<Rightarrow> args \<Rightarrow> message list \<times> (string \<Rightarrow> fs_entry) \<times> (error + pydict)" where
  "load_settings cfg s a =
     (if length (argv s) = 1 then ([Print_no_arguments], fs s, Inl (SystemExit 0))
      else
        (case load_config cfg s a of
           (out1, Inl e) \<Rightarrow> (out1, fs s, Inl e)
         | (out1, Inr settings_json) \<Rightarrow>
        (case settings_cli (py_int s) a of
           Inl e \<Rightarrow> (out1, fs s, Inl e)
         | Inr cli \<Rightarrow>
        (case merge_settings (settings_default cfg a) settings_json cli of
           Inl e \<Rightarrow> (out1, fs s, Inl e)
         | Inr settings \<Rightarrow>
             if missing_parameters settings \<noteq> []
             then (out1 @ [Log_error_missing_parameters (sort (missing_parameters settings)),
                            Print_help], fs s, Inl (SystemExit 1))
             else (case dump_settings s a settings of
                     (out2, f, r) \<Rightarrow> (out1 @ out2, f, r))))))"

subsection \<open>The command line layer as a table\<close>

text \<open>
  The precedence of the layers: the first value that is there, of a later layer before
  an earlier one.
\<close>

definition first_some :: "'a option \<Rightarrow> 'a option \<Rightarrow> 'a option" where
  "first_some x y = (case x of Some v \<Rightarrow> Some v | None \<Rightarrow> y)"

text \<open>
  The value an option supplies: a string option that was passed with a non-empty value,
  a flag that is set, an integer or a comma separated list read from a string.
\<close>

fun str_value :: "string option \<Rightarrow> json option" where
  "str_value None = None"
| "str_value (Some s) = (if s \<noteq> [] then Some (JStr s) else None)"

definition when_value :: "bool \<Rightarrow> json \<Rightarrow> json option" where
  "when_value b v = (if b then Some v else None)"

definition flag_value :: "bool \<Rightarrow> json option" where
  "flag_value b = when_value b (JBool True)"

fun int_value :: "(string \<Rightarrow> int option) \<Rightarrow> string option \<Rightarrow> json option" where
  "int_value to_int None = None"
| "int_value to_int (Some s) = (if s \<noteq> [] then map_option JInt (to_int s) else None)"

fun str_list_value :: "string option \<Rightarrow> json option" where
  "str_list_value None = None"
| "str_list_value (Some s) =
     (if s \<noteq> [] then Some (JArr (map JStr (str_split CHR '','' s))) else None)"

fun int_list_value :: "(string \<Rightarrow> int option) \<Rightarrow> string option \<Rightarrow> json option" where
  "int_list_value to_int None = None"
| "int_list_value to_int (Some s) =
     (if s \<noteq> [] then
        (case int_list to_int (str_split CHR '','' s) of Inl e \<Rightarrow> None | Inr ns \<Rightarrow> Some (JArr ns))
      else None)"

text \<open>
  For every settings key that the command line can set, the value it supplies, if any.
  The namespace holds \<^verbatim>\<open>--organizer\<close> and \<^verbatim>\<open>--split\<close> with their \<^verbatim>\<open>argparse\<close> defaults
  when they were not passed; \<^verbatim>\<open>--fixed-layouts-file\<close> has no row: the script parses it
  and never stores it.
\<close>

definition cli_options :: "(string \<Rightarrow> int option) \<Rightarrow> args \<Rightarrow> (string \<times> json option) list" where
  "cli_options to_int a =
     [ (''resume_contest_folder'', map_option JStr (resume_contest_folder a)),
       (''organizer'', str_value (Some (organizer a))),
       (''www_dir'', str_value (www_dir a)),
       (''compress_logs'', flag_value (compress_logs a)),
       (''workers_file'', str_value (workers_file a)),
       (''staff_teams_dir'', str_value (staff_teams_dir a)),
       (''include_staff_team'', when_value (given (staff_teams_dir a)) (JBool True)),
       (''staff_teams_vs_others_only'', when_value (staff_teams_vs_others_only a) (JBool True)),
       (''teams_root'', str_value (teams_root a)),
       (''team_names_file'', str_value (team_names_file a)),
       (''ignore_file_name_format'', when_value (given (team_names_file a)) (JBool False)),
       (''stats_archive_dir'', str_value (stats_archive_dir a)),
       (''replays_archive_dir'', str_value (replays_archive_dir a)),
       (''logs_archive_dir'', str_value (logs_archive_dir a)),
       (''no_fixed_layouts'', int_value to_int (no_fixed_layouts a)),
       (''fixed_layout_seeds'', str_list_value (fixed_layout_seeds a)),
       (''no_random_layouts'', int_value to_int (no_random_layouts a)),
       (''random_layout_seeds'', int_list_value to_int (random_layout_seeds a)),
       (''max_steps'', int_value to_int (max_steps a)),
       (''upload_replays'', flag_value (upload_all a \<or> upload_replays a)),
       (''upload_logs'', flag_value (upload_all a \<or> upload_logs a)),
       (''allow_non_registered_students'', flag_value (allow_non_registered_students a)),
       (''split'', when_value (split a \<noteq> 0) (JInt (split a))) ]"

definition cli_value :: "(string \<Rightarrow> int option) \<Rightarrow> args \<Rightarrow> string \<Rightarrow> json option" where
  "cli_value to_int a k = (case map_of (cli_options to_int a) k of None \<Rightarrow> None | Some v \<Rightarrow> v)"

text \<open>
  The built-in default of every settings key that has one, as the help texts give them:
  no upload, registered students only, one league.
\<close>

definition builtin_default :: "config \<Rightarrow> string \<Rightarrow> json option" where
  "builtin_default cfg k =
     map_of
       [ (''no_fixed_layouts'', DEFAULT_FIXED_LAYOUTS cfg),
         (''no_random_layouts'', DEFAULT_RANDOM_LAYOUTS cfg),
         (''max_steps'', DEFAULT_MAX_STEPS cfg),
         (''fixed_layouts_file'', DEFAULT_LAYOUTS_ZIP_FILE cfg),
         (''resume_contest_folder'', JNull),
         (''include_staff_team'', JBool False),
         (''staff_teams_dir'', JNull),
         (''staff_teams_vs_others_only'', JBool False),
         (''ignore_file_name_format'', JBool True),
         (''team_names_file'', JNull),
         (''upload_replays'', JBool False),
         (''upload_logs'', JBool False),
         (''allow_non_registered_students'', JBool False),
         (''split'', JInt 1) ] k"

text \<open>
  The file that is read as the configuration: the one stored in the resume folder when
  there is one, the \<^verbatim>\<open>--config-file\<close> otherwise.
\<close>

definition config_path :: "config \<Rightarrow> args \<Rightarrow> string option" where
  "config_path cfg a =
     (case resume_contest_folder a of
        Some d \<Rightarrow> Some (path_join d (DEFAULT_CONFIG_FILE cfg))
      | None \<Rightarrow> config_file a)"

subsection \<open>The \<^verbatim>\<open>__main__\<close> block\<close>

text \<open>
  A \<^verbatim>\<open>Host\<close> is what its constructor is given: the six keyword arguments of lines
  332 to 339.
\<close>

record host =
  no_cpu :: json
  hostname :: json
  username :: json
  password :: json
  key_filename :: json
  key_password :: json

text \<open>
  What a call into an imported module returns: \<^verbatim>\<open>None\<close>, a JSON-like value, a tuple of
  such values, an iterator that yields contest runners and then ends or raises, or an
  object the script only passes on. \<open>'r\<close> is the type of the contest runners.
\<close>

datatype 'r pyobj =
    Obj_none
  | Obj_value json
  | Obj_tuple "json list"
  | Obj_iterator "'r list" "error option"
  | Obj_opaque

datatype 'r reply = Raised | Returned "'r pyobj"

text \<open>
  The calls of the script into the imported modules (the read of the attribute
  \<^verbatim>\<open>contest_timestamp_id\<close> is one of them), with their arguments.
\<close>

datatype 'r call =
    Host_init host
  | MultiContest_init pydict
  | create_contests
  | run_contest_remotely 'r "host list" json bool
  | store_results 'r
  | HtmlGenerator_init json json
  | get_contest_timestamp_id 'r
  | add_run "'r pyobj" json json json
  | clean_up 'r

text \<open>
  The trace lists the calls in the order they are made, each with its reply: a call is
  made when the one before it has returned. The imported modules are an oracle that
  answers a call from the calls made so far.
\<close>

type_synonym 'r trace = "('r call \<times> 'r reply) list"

type_synonym 'r ext = "'r trace \<Rightarrow> 'r call \<Rightarrow> 'r reply"

definition ask :: "'r ext \<Rightarrow> 'r trace \<Rightarrow> 'r call \<Rightarrow> 'r trace \<times> 'r reply" where
  "ask ext tr c = (tr @ [(c, ext tr c)], ext tr c)"

text \<open>
  \<^verbatim>\<open>open(n)\<close> for an \<^verbatim>\<open>int\<close> followed by \<^verbatim>\<open>json.load\<close>: the number names a file descriptor
  of the process. A number that does not fit a C \<^verbatim>\<open>int\<close> raises \<^verbatim>\<open>OverflowError\<close>, a
  negative one \<^verbatim>\<open>ValueError\<close>, one that is no open descriptor \<^verbatim>\<open>OSError\<close>.
\<close>

definition load_fd :: "(int \<Rightarrow> fs_entry) \<Rightarrow> int \<Rightarrow> error + json" where
  "load_fd d n =
     (if n < - (2 ^ 31) \<or> 2 ^ 31 \<le> n then Inl OverflowError
      else if n < 0 then Inl ValueError
      else (case d n of Missing \<Rightarrow> Inl OSError | Broken e \<Rightarrow> Inl e | Content j \<Rightarrow> Inr j))"

text \<open>
  Lines 327 and 328: \<^verbatim>\<open>json.load(open(settings["workers_file"]))["workers"]\<close>. The value
  of \<^verbatim>\<open>workers_file\<close> is a string when it comes from the command line; a configuration
  file can give any value: a string is a path, an \<^verbatim>\<open>int\<close> a file descriptor (\<^verbatim>\<open>False\<close> and
  \<^verbatim>\<open>True\<close> are 0 and 1), and \<^verbatim>\<open>open\<close> raises \<^verbatim>\<open>TypeError\<close> for the other values.
\<close>

definition read_workers :: "sys \<Rightarrow> (string \<Rightarrow> fs_entry) \<Rightarrow> pydict \<Rightarrow> error + json" where
  "read_workers s f settings =
     (case dict_get settings ''workers_file'' of
        None \<Rightarrow> Inl (KeyError ''workers_file'')
      | Some (JStr p) \<Rightarrow>
          (case load_json f p of Inl e \<Rightarrow> Inl e | Inr j \<Rightarrow> subscript j ''workers'')
      | Some (JInt n) \<Rightarrow>
          (case load_fd (descriptors s) n of
             Inl e \<Rightarrow> Inl e | Inr j \<Rightarrow> subscript j ''workers'')
      | Some (JBool b) \<Rightarrow>
          (case load_fd (descriptors s) (if b then 1 else 0) of
             Inl e \<Rightarrow> Inl e | Inr j \<Rightarrow> subscript j ''workers'')
      | Some _ \<Rightarrow> Inl TypeError)"

text \<open>
  \<^verbatim>\<open>for w in v\<close>: a list yields its elements, a \<^verbatim>\<open>dict\<close> its keys, a string its
  characters; the other values are not iterable.
\<close>

fun py_iter :: "json \<Rightarrow> error + json list" where
  "py_iter (JArr xs) = Inr xs"
| "py_iter (JObj items) = Inr (map (\<lambda>kv. JStr (fst kv)) (py_dict_of items))"
| "py_iter (JStr s) = Inr (map (\<lambda>c. JStr [c]) s)"
| "py_iter _ = Inl TypeError"

text \<open>
  Lines 332 to 339: the arguments of \<^verbatim>\<open>Host(...)\<close> for one descriptor, evaluated from left
  to right; the first key that the descriptor lacks raises \<^verbatim>\<open>KeyError\<close>.
\<close>

definition host_args :: "json \<Rightarrow> error + host" where
  "host_args w =
     (case subscript w ''no_cpu'' of Inl e \<Rightarrow> Inl e | Inr v1 \<Rightarrow>
     (case subscript w ''hostname'' of Inl e \<Rightarrow> Inl e | Inr v2 \<Rightarrow>
     (case subscript w ''username'' of Inl e \<Rightarrow> Inl e | Inr v3 \<Rightarrow>
     (case subscript w ''password'' of Inl e \<Rightarrow> Inl e | Inr v4 \<Rightarrow>
     (case subscript w ''private_key_file'' of Inl e \<Rightarrow> Inl e | Inr v5 \<Rightarrow>
     (case subscript w ''private_key_password'' of Inl e \<Rightarrow> Inl e | Inr v6 \<Rightarrow>
        Inr \<lparr> no_cpu = v1, hostname = v2, username = v3, password = v4,
              key_filename = v5, key_password = v6 \<rparr>))))))"

text \<open>Lines 331 to 341: the list comprehension that builds the hosts.\<close>

fun make_hosts :: "'r ext \<Rightarrow> 'r trace \<Rightarrow> json list \<Rightarrow> 'r trace \<times> (error + host list)" where
  "make_hosts ext tr [] = (tr, Inr [])"
| "make_hosts ext tr (w # ws) =
     (case host_args w of
        Inl e \<Rightarrow> (tr, Inl e)
      | Inr h \<Rightarrow>
          (case ask ext tr (Host_init h) of
             (tr1, Raised) \<Rightarrow> (tr1, Inl ExternalError)
           | (tr1, Returned obj) \<Rightarrow>
               (case make_hosts ext tr1 ws of
                  (tr2, Inl e) \<Rightarrow> (tr2, Inl e)
                | (tr2, Inr hs) \<Rightarrow> (tr2, Inr (h # hs)))))"

text \<open>
  \<^verbatim>\<open>a, b, c = v\<close>: \<^verbatim>\<open>v\<close> is iterated and must yield three values.
\<close>

fun unpack3 :: "'r pyobj \<Rightarrow> error + json \<times> json \<times> json" where
  "unpack3 (Obj_tuple [x, y, z]) = Inr (x, y, z)"
| "unpack3 (Obj_tuple xs) = Inl ValueError"
| "unpack3 (Obj_value v) =
     (case py_iter v of
        Inl e \<Rightarrow> Inl e
      | Inr [x, y, z] \<Rightarrow> Inr (x, y, z)
      | Inr xs \<Rightarrow> Inl ValueError)"
| "unpack3 obj = Inl TypeError"

text \<open>
  Lines 352 to 362: one contest. Each call is made when the one before it has returned;
  an exception of a call ends the script.
\<close>

definition run_one ::
  "'r ext \<Rightarrow> pydict \<Rightarrow> host list \<Rightarrow> json \<Rightarrow> bool \<Rightarrow> 'r trace \<Rightarrow> 'r \<Rightarrow>
   message list \<times> 'r trace \<times> (error + unit)" where
  "run_one ext settings hosts resume_folder first tr runner =
     (case ask ext tr (run_contest_remotely runner hosts resume_folder first) of
        (tr1, Raised) \<Rightarrow> ([], tr1, Inl ExternalError)
      | (tr1, Returned obj1) \<Rightarrow>
     (case ask ext tr1 (store_results runner) of
        (tr2, Raised) \<Rightarrow> ([], tr2, Inl ExternalError)
      | (tr2, Returned urls) \<Rightarrow>
     (case unpack3 urls of
        Inl e \<Rightarrow> ([], tr2, Inl e)
      | Inr (stats_file_url, replays_file_url, logs_file_url) \<Rightarrow>
     (case dict_get settings ''www_dir'' of
        None \<Rightarrow> ([], tr2, Inl (KeyError ''www_dir''))
      | Some www \<Rightarrow>
     (case dict_get settings ''organizer'' of
        None \<Rightarrow> ([], tr2, Inl (KeyError ''organizer''))
      | Some org \<Rightarrow>
     (case ask ext tr2 (HtmlGenerator_init www org) of
        (tr3, Raised) \<Rightarrow> ([], tr3, Inl ExternalError)
      | (tr3, Returned obj3) \<Rightarrow>
     (case ask ext tr3 (get_contest_timestamp_id runner) of
        (tr4, Raised) \<Rightarrow> ([], tr4, Inl ExternalError)
      | (tr4, Returned ts) \<Rightarrow>
     (case ask ext tr4 (add_run ts stats_file_url replays_file_url logs_file_url) of
        (tr5, Raised) \<Rightarrow> ([], tr5, Inl ExternalError)
      | (tr5, Returned obj5) \<Rightarrow>
     (case ask ext tr5 (clean_up runner) of
        (tr6, Raised) \<Rightarrow> ([Log_info_done], tr6, Inl ExternalError)
      | (tr6, Returned obj6) \<Rightarrow> ([Log_info_done], tr6, Inr ()))))))))))"

text \<open>Lines 350 to 362: the loop over the contests, \<^verbatim>\<open>first\<close> true for the first only.\<close>

fun contest_loop ::
  "'r ext \<Rightarrow> pydict \<Rightarrow> host list \<Rightarrow> json \<Rightarrow> bool \<Rightarrow> 'r trace \<Rightarrow> 'r list \<Rightarrow>
   message list \<times> 'r trace \<times> (error + unit)" where
  "contest_loop ext settings hosts resume_folder first tr [] = ([], tr, Inr ())"
| "contest_loop ext settings hosts resume_folder first tr (runner # runners) =
     (case run_one ext settings hosts resume_folder first tr runner of
        (out1, tr1, Inl e) \<Rightarrow> (out1, tr1, Inl e)
      | (out1, tr1, Inr u) \<Rightarrow>
          (case contest_loop ext settings hosts resume_folder False tr1 runners of
             (out2, tr2, r) \<Rightarrow> (out1 @ out2, tr2, r)))"

text \<open>
  What \<^verbatim>\<open>create_contests()\<close> returned is iterated by the loop: an iterator of runners;
  an empty list, tuple or string, for which the loop does nothing; a value that yields
  something that is no runner (the first method call on it raises); a value that is not
  iterable.
\<close>

fun iter_runners :: "'r pyobj \<Rightarrow> error + 'r list \<times> error option" where
  "iter_runners (Obj_iterator rs e) = Inr (rs, e)"
| "iter_runners (Obj_tuple xs) = (if xs = [] then Inr ([], None) else Inl AttributeError)"
| "iter_runners (Obj_value v) =
     (case py_iter v of
        Inl e \<Rightarrow> Inl e
      | Inr xs \<Rightarrow> if xs = [] then Inr ([], None) else Inl AttributeError)"
| "iter_runners obj = Inl TypeError"

text \<open>
  Lines 344 to 362: the contests of the run, once the hosts are built.
\<close>

definition run_contests ::
  "'r ext \<Rightarrow> pydict \<Rightarrow> host list \<Rightarrow> 'r trace \<Rightarrow> message list \<times> 'r trace \<times> (error + unit)" where
  "run_contests ext settings0 hosts tr =
     (case dict_get settings0 ''resume_contest_folder'' of
        None \<Rightarrow> ([], tr, Inl (KeyError ''resume_contest_folder''))
      | Some resume_folder \<Rightarrow>
          (let settings = dict_del ''resume_contest_folder'' settings0 in
           case ask ext tr (MultiContest_init settings) of
             (tr1, Raised) \<Rightarrow> ([Log_info_options settings], tr1, Inl ExternalError)
           | (tr1, Returned obj1) \<Rightarrow>
          (case ask ext tr1 create_contests of
             (tr2, Raised) \<Rightarrow> ([Log_info_options settings], tr2, Inl ExternalError)
           | (tr2, Returned contests) \<Rightarrow>
          (case iter_runners contests of
             Inl e \<Rightarrow> ([Log_info_options settings], tr2, Inl e)
           | Inr (runners, ending) \<Rightarrow>
          (case contest_loop ext settings hosts resume_folder True tr2 runners of
             (out, tr3, Inl e) \<Rightarrow> (Log_info_options settings # out, tr3, Inl e)
           | (out, tr3, Inr u) \<Rightarrow>
               (Log_info_options settings # out, tr3,
                (case ending of None \<Rightarrow> Inr () | Some e \<Rightarrow> Inl e)))))))"

text \<open>
  The script: what it prints and logs, the file system it leaves, the calls it makes,
  and how it ends.
\<close>

definition main ::
  "config \<Rightarrow> sys \<Rightarrow> 'r ext \<Rightarrow> args \<Rightarrow>
   message list \<times> (string \<Rightarrow> fs_entry) \<times> 'r trace \<times> (error + unit)" where
  "main cfg s ext a =
     (case load_settings cfg s a of
        (out0, f, Inl e) \<Rightarrow> (out0, f, [], Inl e)
      | (out0, f, Inr settings) \<Rightarrow>
     (case read_workers s f settings of
        Inl e \<Rightarrow> (out0, f, [], Inl e)
      | Inr workers_details \<Rightarrow>
     (case py_iter workers_details of
        Inl e \<Rightarrow> (out0 @ [Log_info_workers workers_details], f, [], Inl e)
      | Inr ws \<Rightarrow>
     (case make_hosts ext [] ws of
        (tr1, Inl e) \<Rightarrow> (out0 @ [Log_info_workers workers_details], f, tr1, Inl e)
      | (tr1, Inr hosts) \<Rightarrow>
     (case run_contests ext settings hosts tr1 of
        (out1, tr2, r) \<Rightarrow>
          (out0 @ [Log_info_workers workers_details] @ out1, f, tr2, r))))))"

subsection \<open>Properties of a trace\<close>

text \<open>
  An ordering property of a trace: every entry that satisfies \<open>T\<close> has at least \<open>k\<close>
  entries before it, and the \<open>k\<close> entries just before it stand in relation \<open>R\<close> to it.
\<close>

definition follows :: "nat \<Rightarrow> ('e \<Rightarrow> bool) \<Rightarrow> ('e list \<Rightarrow> 'e \<Rightarrow> bool) \<Rightarrow> 'e list \<Rightarrow> bool" where
  "follows k T R tr =
     (\<forall>n<length tr. T (tr ! n) \<longrightarrow> k \<le> n \<and> R (take k (drop (n - k) tr)) (tr ! n))"

text \<open>
  The calls of one contest, and what has to stand just before them in a trace: before
  \<^verbatim>\<open>store_results\<close> the remote run of the same runner, returned; before \<^verbatim>\<open>add_run\<close> the
  archive, the report generator and the timestamp; before \<^verbatim>\<open>clean_up\<close> these three and
  \<^verbatim>\<open>add_run\<close>.
\<close>

definition is_store_results :: "'r call \<times> 'r reply \<Rightarrow> bool" where
  "is_store_results e = (case fst e of store_results r \<Rightarrow> True | _ \<Rightarrow> False)"

definition after_run :: "('r call \<times> 'r reply) list \<Rightarrow> 'r call \<times> 'r reply \<Rightarrow> bool" where
  "after_run w e =
     (\<exists>r hosts resume_folder first obj.
        fst e = store_results r \<and>
        w = [(run_contest_remotely r hosts resume_folder first, Returned obj)])"

definition is_add_run :: "'r call \<times> 'r reply \<Rightarrow> bool" where
  "is_add_run e = (case fst e of add_run ts x y z \<Rightarrow> True | _ \<Rightarrow> False)"

definition after_store :: "('r call \<times> 'r reply) list \<Rightarrow> 'r call \<times> 'r reply \<Rightarrow> bool" where
  "after_store w e =
     (\<exists>r urls www org obj ts x y z.
        fst e = add_run ts x y z \<and> unpack3 urls = Inr (x, y, z) \<and>
        w = [(store_results r, Returned urls), (HtmlGenerator_init www org, Returned obj),
             (get_contest_timestamp_id r, Returned ts)])"

definition is_clean_up :: "'r call \<times> 'r reply \<Rightarrow> bool" where
  "is_clean_up e = (case fst e of clean_up r \<Rightarrow> True | _ \<Rightarrow> False)"

definition after_archive :: "('r call \<times> 'r reply) list \<Rightarrow> 'r call \<times> 'r reply \<Rightarrow> bool" where
  "after_archive w e =
     (\<exists>r urls www org obj ts x y z obj'.
        fst e = clean_up r \<and> unpack3 urls = Inr (x, y, z) \<and>
        w = [(store_results r, Returned urls), (HtmlGenerator_init www org, Returned obj),
             (get_contest_timestamp_id r, Returned ts), (add_run ts x y z, Returned obj')])"

text \<open>The keys that lines 333 to 338 read from every worker descriptor.\<close>

definition descriptor_keys :: "string list" where
  "descriptor_keys =
     [''no_cpu'', ''hostname'', ''username'', ''password'', ''private_key_file'',
      ''private_key_password'']"

definition is_Host_init :: "'r call \<times> 'r reply \<Rightarrow> bool" where
  "is_Host_init e = (case fst e of Host_init h \<Rightarrow> True | _ \<Rightarrow> False)"

text \<open>The value of a key after the merge of line 300 and the normalisation of line 302.\<close>

definition merged_value :: "config \<Rightarrow> sys \<Rightarrow> args \<Rightarrow> (string \<times> json) list \<Rightarrow> string \<Rightarrow> json option" where
  "merged_value cfg s a items k =
     first_some (cli_value (py_int s) a k)
       (first_some (dict_get (py_dict_of items) k) (dict_get (settings_default cfg a) k))"


subsection \<open>An example run\<close>

text \<open>
  An instance of Python's \<^verbatim>\<open>int\<close> for the examples: a string of decimal digits is read
  as Python reads it; signs, blanks and underscores are left out of this instance.
\<close>

fun decimal_digits :: "string \<Rightarrow> int \<Rightarrow> int option" where
  "decimal_digits [] acc = Some acc"
| "decimal_digits (c # cs) acc =
     (if CHR ''0'' \<le> c \<and> c \<le> CHR ''9''
      then decimal_digits cs (10 * acc + (of_char c - of_char CHR ''0''))
      else None)"

definition decimal :: "string \<Rightarrow> int option" where
  "decimal s = (if s = [] then None else decimal_digits s 0)"

text \<open>
  A run with a configuration file and a roster of two workers:
  \<^verbatim>\<open>--config-file c.json --workers-file workers.json --fixed-layouts-file my.zip
  --max-steps 900 --upload-all\<close>.
\<close>

definition example_config :: config where
  "example_config =
     \<lparr> DEFAULT_FIXED_LAYOUTS = JInt 3, DEFAULT_RANDOM_LAYOUTS = JInt 3,
       DEFAULT_MAX_STEPS = JInt 1200, DEFAULT_LAYOUTS_ZIP_FILE = JStr ''layouts.zip'',
       DEFAULT_CONFIG_FILE = ''config.json'' \<rparr>"

definition example_roster :: json where
  "example_roster =
     JObj [(''workers'',
       JArr [ JObj [(''hostname'', JStr ''h1''), (''username'', JStr ''u1''),
                    (''password'', JStr ''secret''), (''no_cpu'', JInt 4),
                    (''private_key_file'', JNull), (''private_key_password'', JNull)],
              JObj [(''hostname'', JStr ''h2''), (''username'', JStr ''u2''),
                    (''password'', JNull), (''no_cpu'', JInt 2),
                    (''private_key_file'', JStr ''id_rsa''), (''private_key_password'', JNull)] ])]"

definition example_fs :: "string \<Rightarrow> fs_entry" where
  "example_fs p =
     (if p = ''c.json'' then
        Content (JObj [(''split'', JInt 0), (''organizer'', JStr ''RMIT''),
                       (''www_dir'', JStr ''www''), (''upload_replays'', JBool False)])
      else if p = ''workers.json'' then Content example_roster
      else Missing)"

definition example_sys :: sys where
  "example_sys =
     \<lparr> argv = [''pacman_contest_cluster.py'', ''--config-file'', ''c.json'',
               ''--workers-file'', ''workers.json'', ''--fixed-layouts-file'', ''my.zip'',
               ''--max-steps'', ''900'', ''--upload-all''],
       fs = example_fs, writable = (\<lambda>p. True), descriptors = (\<lambda>n. Missing),
       py_int = decimal \<rparr>"

definition example_args :: args where
  "example_args =
     default_args \<lparr> config_file := Some ''c.json'', workers_file := Some ''workers.json'',
       fixed_layouts_file := Some ''my.zip'', max_steps := Some ''900'', upload_all := True \<rparr>"

text \<open>
The settings \<^verbatim>\<open>load_settings\<close> returns for it.
\<close>

definition example_settings :: pydict where
  "example_settings =
     [ (''no_fixed_layouts'', JInt 3),
       (''no_random_layouts'', JInt 3),
       (''max_steps'', JInt 900),
       (''fixed_layouts_file'', JStr ''layouts.zip''),
       (''resume_contest_folder'', JNull),
       (''include_staff_team'', JBool False),
       (''staff_teams_dir'', JNull),
       (''staff_teams_vs_others_only'', JBool False),
       (''ignore_file_name_format'', JBool True),
       (''team_names_file'', JNull),
       (''upload_replays'', JBool True),
       (''upload_logs'', JBool True),
       (''allow_non_registered_students'', JBool False),
       (''split'', JInt 1),
       (''organizer'', JStr ''Uni Pacman''),
       (''www_dir'', JStr ''www''),
       (''workers_file'', JStr ''workers.json'') ]"

text \<open>
  A resume run: the folder \<^verbatim>\<open>run1\<close> stores the configuration of the run that crashed, and
  the command line names another team directory and another layout, the same split and
  a configuration file of its own.
\<close>

definition resume_fs :: "string \<Rightarrow> fs_entry" where
  "resume_fs p =
     (if p = ''run1/config.json'' then
        Content (JObj [(''teams_root'', JStr ''teamsA''),
                       (''fixed_layout_seeds'', JArr [JStr ''contest02cCapture'']),
                       (''split'', JInt 2), (''www_dir'', JStr ''www''),
                       (''workers_file'', JStr ''workers.json'')])
      else if p = ''other.json'' then Content (JObj [(''www_dir'', JStr ''elsewhere'')])
      else if p = ''workers.json'' then Content example_roster
      else Missing)"

definition resume_sys :: sys where
  "resume_sys =
     \<lparr> argv = [''pacman_contest_cluster.py'', ''--resume-contest-folder'', ''run1'',
               ''--config-file'', ''other.json'', ''--teams-root'', ''teamsB'',
               ''--fixed-layout-seeds'', ''contest12Capture'', ''--split'', ''2''],
       fs = resume_fs, writable = (\<lambda>p. True), descriptors = (\<lambda>n. Missing),
       py_int = decimal \<rparr>"

definition resume_args :: args where
  "resume_args =
     default_args \<lparr> resume_contest_folder := Some ''run1'', config_file := Some ''other.json'',
       teams_root := Some ''teamsB'', fixed_layout_seeds := Some ''contest12Capture'',
       split := 2 \<rparr>"

definition resume_settings :: pydict where
  "resume_settings =
     [ (''no_fixed_layouts'', JInt 3),
       (''no_random_layouts'', JInt 3),
       (''max_steps'', JInt 1200),
       (''fixed_layouts_file'', JStr ''layouts.zip''),
       (''resume_contest_folder'', JStr ''run1''),
       (''include_staff_team'', JBool False),
       (''staff_teams_dir'', JNull),
       (''staff_teams_vs_others_only'', JBool False),
       (''ignore_file_name_format'', JBool True),
       (''team_names_file'', JNull),
       (''upload_replays'', JBool False),
       (''upload_logs'', JBool False),
       (''allow_non_registered_students'', JBool False),
       (''split'', JInt 2),
       (''teams_root'', JStr ''teamsB''),
       (''fixed_layout_seeds'', JArr [JStr ''contest12Capture'']),
       (''www_dir'', JStr ''www''),
       (''workers_file'', JStr ''workers.json''),
       (''organizer'', JStr ''Uni Pacman'') ]"

text \<open>
The same folder resumed with \<^verbatim>\<open>--split 3\<close>.
\<close>

definition mismatch_sys :: sys where
  "mismatch_sys =
     resume_sys \<lparr> argv := [''pacman_contest_cluster.py'', ''--resume-contest-folder'', ''run1'',
                           ''--split'', ''3''] \<rparr>"

definition mismatch_args :: args where
  "mismatch_args = default_args \<lparr> resume_contest_folder := Some ''run1'', split := 3 \<rparr>"

text \<open>
A run whose \<^verbatim>\<open>--config-file\<close> does not exist, with modules that return \<^verbatim>\<open>None\<close>.
\<close>

definition missing_sys :: sys where
  "missing_sys =
     example_sys \<lparr> argv := [''pacman_contest_cluster.py'', ''--config-file'', ''nowhere.json''] \<rparr>"

definition missing_args :: args where
  "missing_args = default_args \<lparr> config_file := Some ''nowhere.json'' \<rparr>"

definition silent_ext :: "nat ext" where
  "silent_ext tr c = Returned Obj_none"

text \<open>
  The imported modules of the example run: two contests, the same three archive
  locations for each, the name of the runner as its timestamp.
\<close>

definition example_ext :: "string ext" where
  "example_ext tr c =
     (case c of
        create_contests \<Rightarrow> Returned (Obj_iterator [''league1'', ''league2''] None)
      | store_results r \<Rightarrow>
          Returned (Obj_tuple [JStr ''stats.json'', JStr ''replays.tar'', JStr ''logs.tar''])
      | get_contest_timestamp_id r \<Rightarrow> Returned (Obj_value (JStr r))
      | _ \<Rightarrow> Returned Obj_opaque)"

definition example_host1 :: host where
  "example_host1 =
     \<lparr> no_cpu = JInt 4, hostname = JStr ''h1'', username = JStr ''u1'',
       password = JStr ''secret'', key_filename = JNull, key_password = JNull \<rparr>"

definition example_host2 :: host where
  "example_host2 =
     \<lparr> no_cpu = JInt 2, hostname = JStr ''h2'', username = JStr ''u2'',
       password = JNull, key_filename = JStr ''id_rsa'', key_password = JNull \<rparr>"

text \<open>
The calls of one contest of the example run, and its whole trace.
\<close>

definition example_contest :: "string \<Rightarrow> bool \<Rightarrow> string trace" where
  "example_contest r first =
     [ (run_contest_remotely r [example_host1, example_host2] JNull first, Returned Obj_opaque),
       (store_results r,
        Returned (Obj_tuple [JStr ''stats.json'', JStr ''replays.tar'', JStr ''logs.tar''])),
       (HtmlGenerator_init (JStr ''www'') (JStr ''Uni Pacman''), Returned Obj_opaque),
       (get_contest_timestamp_id r, Returned (Obj_value (JStr r))),
       (add_run (Obj_value (JStr r)) (JStr ''stats.json'') (JStr ''replays.tar'')
          (JStr ''logs.tar''), Returned Obj_opaque),
       (clean_up r, Returned Obj_opaque) ]"

definition example_trace :: "string trace" where
  "example_trace =
     [ (Host_init example_host1, Returned Obj_opaque),
       (Host_init example_host2, Returned Obj_opaque),
       (MultiContest_init (dict_del ''resume_contest_folder'' example_settings),
        Returned Obj_opaque),
       (create_contests, Returned (Obj_iterator [''league1'', ''league2''] None)) ]
     @ example_contest ''league1'' True @ example_contest ''league2'' False"





text \<open>
  The resume run of \<^verbatim>\<open>run1\<close> with a \<^verbatim>\<open>--config-file\<close> that does not exist.
\<close>

definition ignored_sys :: sys where
  "ignored_sys =
     resume_sys \<lparr> argv := [''pacman_contest_cluster.py'', ''--resume-contest-folder'', ''run1'',
               ''--config-file'', ''nowhere.json'', ''--teams-root'', ''teamsB'',
               ''--fixed-layout-seeds'', ''contest12Capture'', ''--split'', ''2''] \<rparr>"

definition ignored_args :: args where
  "ignored_args = resume_args \<lparr> config_file := Some ''nowhere.json'' \<rparr>"

text \<open>
  A roster whose only worker is described with a password and no key entries.
\<close>

definition short_roster :: json where
  "short_roster =
     JObj [(''workers'',
       JArr [ JObj [(''hostname'', JStr ''h1''), (''username'', JStr ''u1''),
                    (''password'', JStr ''secret''), (''no_cpu'', JInt 4)] ])]"

definition short_fs :: "string \<Rightarrow> fs_entry" where
  "short_fs p = (if p = ''workers.json'' then Content short_roster else example_fs p)"

definition short_sys :: sys where
  "short_sys = example_sys \<lparr> fs := short_fs \<rparr>"

section \<open>Properties\<close>

subsection \<open>Dictionaries\<close>

lemma dict_get_set: "dict_get (dict_set k v d) k' = (if k' = k then Some v else dict_get d k')"
  by (simp add: dict_get_def dict_set_def update_conv')

lemma dict_get_del: "dict_get (dict_del k d) k' = (if k' = k then None else dict_get d k')"
  by (simp add: dict_get_def dict_del_def delete_conv')

lemma dict_get_merge_rev:
  "dict_get (dict_merge a b) k = (case map_of (rev b) k of Some v \<Rightarrow> Some v | None \<Rightarrow> dict_get a k)"
proof (induction b arbitrary: a)
  case Nil
  then show ?case by (simp add: dict_merge_def)
next
  case (Cons x xs)
  obtain k' v' where x: "x = (k', v')" by (cases x)
  have "dict_merge a (x # xs) = dict_merge (dict_set k' v' a) xs"
    by (simp add: dict_merge_def x)
  then show ?case
    using Cons.IH [of "dict_set k' v' a"]
    by (simp add: x dict_get_set map_add_def split: option.splits)
qed

lemma dict_get_py_dict_of: "dict_get (py_dict_of b) k = map_of (rev b) k"
  using dict_get_merge_rev [of "[]" b k]
  by (simp add: py_dict_of_def dict_get_def split: option.splits)



lemma map_of_rev_distinct: "distinct (map fst d) \<Longrightarrow> map_of (rev d) = map_of d"
proof (induction d)
  case Nil
  then show ?case by simp
next
  case (Cons x xs)
  then have "fst x \<notin> dom (map_of xs)" by (simp add: dom_map_of_conv_image_fst)
  then have "map_of xs (fst x) = None" by blast
  with Cons show ?case
    by (cases x) (auto simp: map_add_def fun_eq_iff split: option.splits)
qed

lemma distinct_dict_set: "distinct (map fst d) \<Longrightarrow> distinct (map fst (dict_set k v d))"
  by (simp add: dict_set_def distinct_update)

lemma dict_get_py_dict_of_distinct:
  "distinct (map fst d) \<Longrightarrow> dict_get (py_dict_of d) k = dict_get d k"
  using map_of_rev_distinct [of d]
  by (simp add: dict_get_py_dict_of) (simp add: dict_get_def)

lemma first_some_simps [simp]:
  "first_some (Some v) y = Some v" "first_some None y = y" "first_some x None = x"
  by (simp_all add: first_some_def split: option.splits)

lemma dict_get_merge:
  "dict_get (dict_merge a b) k = first_some (dict_get (py_dict_of b) k) (dict_get a k)"
  by (simp add: dict_get_merge_rev dict_get_py_dict_of first_some_def)

lemma distinct_dict_merge: "distinct (map fst a) \<Longrightarrow> distinct (map fst (dict_merge a b))"
proof (induction b arbitrary: a)
  case Nil
  then show ?case by (simp add: dict_merge_def)
next
  case (Cons x xs)
  obtain k v where x: "x = (k, v)" by (cases x)
  have "dict_merge a (x # xs) = dict_merge (dict_set k v a) xs"
    by (simp add: dict_merge_def x)
  with Cons show ?case by (simp add: distinct_dict_set)
qed

lemma dict_get_set_str:
  "dict_get (set_str k x c) k' = (if k' = k then first_some (str_value x) (dict_get c k') else dict_get c k')"
  by (cases x) (simp_all add: set_str_def dict_get_set)

lemma dict_get_set_flag:
  "dict_get (set_flag k b c) k' = (if k' = k then first_some (flag_value b) (dict_get c k') else dict_get c k')"
  by (simp add: set_flag_def dict_get_set flag_value_def when_value_def)

lemma dict_get_when:
  "dict_get (if b then dict_set k v c else c) k' =
     (if k' = k then first_some (when_value b v) (dict_get c k') else dict_get c k')"
  by (simp add: dict_get_set when_value_def)

lemma dict_get_when_str:
  "dict_get (if given x then dict_set k v (set_str kx x c) else c) k' =
     (if k' = k then first_some (when_value (given x) v) (dict_get c k')
      else if k' = kx then first_some (str_value x) (dict_get c k')
      else dict_get c k')"
  by (cases x) (simp_all add: dict_get_set when_value_def set_str_def)

lemma dict_get_upload:
  "dict_get (if ua then dict_set ''upload_logs'' (JBool True) (dict_set ''upload_replays'' (JBool True) c)
             else set_flag ''upload_logs'' ul (set_flag ''upload_replays'' ur c)) k' =
     (if k' = ''upload_logs'' then first_some (flag_value (ua \<or> ul)) (dict_get c k')
      else if k' = ''upload_replays'' then first_some (flag_value (ua \<or> ur)) (dict_get c k')
      else dict_get c k')"
  by (simp add: dict_get_set set_flag_def flag_value_def when_value_def)

lemma dict_get_resume:
  "dict_get (case x of None \<Rightarrow> [] | Some d \<Rightarrow> dict_set k (JStr d) []) k' =
     (if k' = k then map_option JStr x else None)"
  by (cases x) (simp_all add: dict_get_set, simp_all add: dict_get_def)

lemma dict_get_collect_plain:
  "dict_get (collect_plain a c0) k =
     (if k = ''logs_archive_dir'' then first_some (str_value (logs_archive_dir a)) (dict_get c0 k)
      else if k = ''replays_archive_dir'' then first_some (str_value (replays_archive_dir a)) (dict_get c0 k)
      else if k = ''stats_archive_dir'' then first_some (str_value (stats_archive_dir a)) (dict_get c0 k)
      else if k = ''ignore_file_name_format'' then first_some (when_value (given (team_names_file a)) (JBool False)) (dict_get c0 k)
      else if k = ''team_names_file'' then first_some (str_value (team_names_file a)) (dict_get c0 k)
      else if k = ''teams_root'' then first_some (str_value (teams_root a)) (dict_get c0 k)
      else if k = ''staff_teams_vs_others_only'' then first_some (when_value (staff_teams_vs_others_only a) (JBool True)) (dict_get c0 k)
      else if k = ''include_staff_team'' then first_some (when_value (given (staff_teams_dir a)) (JBool True)) (dict_get c0 k)
      else if k = ''staff_teams_dir'' then first_some (str_value (staff_teams_dir a)) (dict_get c0 k)
      else if k = ''workers_file'' then first_some (str_value (workers_file a)) (dict_get c0 k)
      else if k = ''compress_logs'' then first_some (flag_value (compress_logs a)) (dict_get c0 k)
      else if k = ''www_dir'' then first_some (str_value (www_dir a)) (dict_get c0 k)
      else if k = ''organizer'' then first_some (str_value (Some (organizer a))) (dict_get c0 k)
      else dict_get c0 k)"
  unfolding collect_plain_def Let_def
  by (simp only: dict_get_set_str dict_get_when dict_get_when_str dict_get_set_flag) simp

lemma dict_get_collect_flags:
  "dict_get (collect_flags a c0) k =
     (if k = ''split'' then first_some (when_value (split a \<noteq> 0) (JInt (split a))) (dict_get c0 k)
      else if k = ''allow_non_registered_students'' then first_some (flag_value (allow_non_registered_students a)) (dict_get c0 k)
      else if k = ''upload_logs'' then first_some (flag_value (upload_all a \<or> upload_logs a)) (dict_get c0 k)
      else if k = ''upload_replays'' then first_some (flag_value (upload_all a \<or> upload_replays a)) (dict_get c0 k)
      else dict_get c0 k)"
  unfolding collect_flags_def Let_def
  by (simp only: dict_get_when dict_get_upload dict_get_set_flag) simp


lemma dict_get_set_str_list:
  "dict_get (set_str_list k x c) k' = (if k' = k then first_some (str_list_value x) (dict_get c k') else dict_get c k')"
  by (cases x) (simp_all add: set_str_list_def dict_get_set)

lemma dict_get_set_int:
  "set_int to_int k x c = Inr c' \<Longrightarrow>
   dict_get c' k' = (if k' = k then first_some (int_value to_int x) (dict_get c k') else dict_get c k')"
  by (cases x) (auto simp: set_int_def dict_get_set split: if_splits option.splits)

lemma dict_get_set_int_list:
  "set_int_list to_int k x c = Inr c' \<Longrightarrow>
   dict_get c' k' = (if k' = k then first_some (int_list_value to_int x) (dict_get c k') else dict_get c k')"
  by (cases x) (auto simp: set_int_list_def dict_get_set split: if_splits sum.splits)

lemma dict_get_collect_layouts:
  assumes "collect_layouts to_int a c0 = Inr c"
  shows "dict_get c k =
     (if k = ''max_steps'' then first_some (int_value to_int (max_steps a)) (dict_get c0 k)
      else if k = ''random_layout_seeds'' then first_some (int_list_value to_int (random_layout_seeds a)) (dict_get c0 k)
      else if k = ''no_random_layouts'' then first_some (int_value to_int (no_random_layouts a)) (dict_get c0 k)
      else if k = ''fixed_layout_seeds'' then first_some (str_list_value (fixed_layout_seeds a)) (dict_get c0 k)
      else if k = ''no_fixed_layouts'' then first_some (int_value to_int (no_fixed_layouts a)) (dict_get c0 k)
      else dict_get c0 k)"
proof -
  from assms obtain c1 c2 c3 where
    s1: "set_int to_int ''no_fixed_layouts'' (no_fixed_layouts a) c0 = Inr c1" and
    s2: "set_int to_int ''no_random_layouts'' (no_random_layouts a)
           (set_str_list ''fixed_layout_seeds'' (fixed_layout_seeds a) c1) = Inr c2" and
    s3: "set_int_list to_int ''random_layout_seeds'' (random_layout_seeds a) c2 = Inr c3" and
    s4: "set_int to_int ''max_steps'' (max_steps a) c3 = Inr c"
    by (auto simp: collect_layouts_def split: sum.splits)
  show ?thesis
    by (simp add: dict_get_set_int [OF s4] dict_get_set_int_list [OF s3]
        dict_get_set_int [OF s2] dict_get_set_str_list dict_get_set_int [OF s1])
qed




lemma dict_get_settings_cli:
  assumes "settings_cli to_int a = Inr c"
  shows "dict_get c k = cli_value to_int a k"
proof -
  from assms obtain c1 where
    c1: "collect_layouts to_int a (collect_plain a (case resume_contest_folder a of
                  None \<Rightarrow> []
                | Some d \<Rightarrow> dict_set ''resume_contest_folder'' (JStr d) [])) = Inr c1"
    and c: "c = collect_flags a c1"
    by (auto simp: settings_cli_def split: sum.splits)
  have "dict_get c k = 
     (if k = ''split'' then first_some (when_value (split a \<noteq> 0) (JInt (split a))) None
      else if k = ''allow_non_registered_students'' then first_some (flag_value (allow_non_registered_students a)) None
      else if k = ''upload_logs'' then first_some (flag_value (upload_all a \<or> upload_logs a)) None
      else if k = ''upload_replays'' then first_some (flag_value (upload_all a \<or> upload_replays a)) None
      else if k = ''max_steps'' then first_some (int_value to_int (max_steps a)) None
      else if k = ''random_layout_seeds'' then first_some (int_list_value to_int (random_layout_seeds a)) None
      else if k = ''no_random_layouts'' then first_some (int_value to_int (no_random_layouts a)) None
      else if k = ''fixed_layout_seeds'' then first_some (str_list_value (fixed_layout_seeds a)) None
      else if k = ''no_fixed_layouts'' then first_some (int_value to_int (no_fixed_layouts a)) None
      else if k = ''logs_archive_dir'' then first_some (str_value (logs_archive_dir a)) None
      else if k = ''replays_archive_dir'' then first_some (str_value (replays_archive_dir a)) None
      else if k = ''stats_archive_dir'' then first_some (str_value (stats_archive_dir a)) None
      else if k = ''ignore_file_name_format'' then first_some (when_value (given (team_names_file a)) (JBool False)) None
      else if k = ''team_names_file'' then first_some (str_value (team_names_file a)) None
      else if k = ''teams_root'' then first_some (str_value (teams_root a)) None
      else if k = ''staff_teams_vs_others_only'' then first_some (when_value (staff_teams_vs_others_only a) (JBool True)) None
      else if k = ''include_staff_team'' then first_some (when_value (given (staff_teams_dir a)) (JBool True)) None
      else if k = ''staff_teams_dir'' then first_some (str_value (staff_teams_dir a)) None
      else if k = ''workers_file'' then first_some (str_value (workers_file a)) None
      else if k = ''compress_logs'' then first_some (flag_value (compress_logs a)) None
      else if k = ''www_dir'' then first_some (str_value (www_dir a)) None
      else if k = ''organizer'' then first_some (str_value (Some (organizer a))) None
      else if k = ''resume_contest_folder'' then map_option JStr (resume_contest_folder a)
      else None)"
    unfolding c dict_get_collect_flags dict_get_collect_layouts [OF c1] dict_get_collect_plain
      dict_get_resume
    by (simp cong: if_cong)
  also have "\<dots> = cli_value to_int a k"
    unfolding cli_value_def cli_options_def map_of.simps fst_conv snd_conv first_some_simps
      fun_upd_apply option.case
    by (simp cong: if_cong)
  finally show ?thesis .
qed

lemma distinct_set_str: "distinct (map fst c) \<Longrightarrow> distinct (map fst (set_str k x c))"
  by (cases x) (simp_all add: set_str_def distinct_dict_set)

lemma distinct_set_flag: "distinct (map fst c) \<Longrightarrow> distinct (map fst (set_flag k b c))"
  by (simp add: set_flag_def distinct_dict_set)

lemma distinct_set_str_list: "distinct (map fst c) \<Longrightarrow> distinct (map fst (set_str_list k x c))"
  by (cases x) (simp_all add: set_str_list_def distinct_dict_set)

lemma distinct_set_int:
  "set_int to_int k x c = Inr c' \<Longrightarrow> distinct (map fst c) \<Longrightarrow> distinct (map fst c')"
  by (cases x) (auto simp: set_int_def distinct_dict_set split: if_splits option.splits)

lemma distinct_set_int_list:
  "set_int_list to_int k x c = Inr c' \<Longrightarrow> distinct (map fst c) \<Longrightarrow> distinct (map fst c')"
  by (cases x) (auto simp: set_int_list_def distinct_dict_set split: if_splits sum.splits)

lemma distinct_collect_plain:
  "distinct (map fst c) \<Longrightarrow> distinct (map fst (collect_plain a c))"
  unfolding collect_plain_def Let_def
  by (simp add: distinct_set_str distinct_set_flag distinct_dict_set)

lemma distinct_collect_layouts:
  assumes "collect_layouts to_int a c0 = Inr c" and "distinct (map fst c0)"
  shows "distinct (map fst c)"
proof -
  from assms(1) obtain c1 c2 c3 where
    s1: "set_int to_int ''no_fixed_layouts'' (no_fixed_layouts a) c0 = Inr c1" and
    s2: "set_int to_int ''no_random_layouts'' (no_random_layouts a)
           (set_str_list ''fixed_layout_seeds'' (fixed_layout_seeds a) c1) = Inr c2" and
    s3: "set_int_list to_int ''random_layout_seeds'' (random_layout_seeds a) c2 = Inr c3" and
    s4: "set_int to_int ''max_steps'' (max_steps a) c3 = Inr c"
    by (auto simp: collect_layouts_def split: sum.splits)
  from distinct_set_int [OF s1 assms(2)] have "distinct (map fst c1)" .
  then have "distinct (map fst (set_str_list ''fixed_layout_seeds'' (fixed_layout_seeds a) c1))"
    by (rule distinct_set_str_list)
  from distinct_set_int [OF s2 this] have "distinct (map fst c2)" .
  from distinct_set_int_list [OF s3 this] have "distinct (map fst c3)" .
  from distinct_set_int [OF s4 this] show ?thesis .
qed

lemma distinct_collect_flags:
  "distinct (map fst c) \<Longrightarrow> distinct (map fst (collect_flags a c))"
  unfolding collect_flags_def Let_def
  by (simp add: distinct_set_flag distinct_dict_set)

lemma distinct_settings_cli:
  assumes "settings_cli to_int a = Inr c"
  shows "distinct (map fst c)"
proof -
  let ?c0 = "case resume_contest_folder a of
               None \<Rightarrow> [] | Some d \<Rightarrow> dict_set ''resume_contest_folder'' (JStr d) []"
  from assms obtain c1 where
    c1: "collect_layouts to_int a (collect_plain a ?c0) = Inr c1"
    and c: "c = collect_flags a c1"
    by (auto simp: settings_cli_def split: sum.splits)
  have "distinct (map fst ?c0)"
    by (cases "resume_contest_folder a") (simp_all add: distinct_dict_set)
  then have "distinct (map fst (collect_plain a ?c0))"
    by (rule distinct_collect_plain)
  from distinct_collect_layouts [OF c1 this] show ?thesis
    unfolding c by (rule distinct_collect_flags)
qed

lemma merge_settings_value:
  assumes "merge_settings dflt j cli = Inr st" and "distinct (map fst cli)"
  obtains items where "j = JObj items"
    and "\<And>k. dict_get st k =
          (let m = first_some (dict_get cli k) (first_some (dict_get (py_dict_of items) k) (dict_get dflt k))
           in if k = ''split'' \<and> (case m of None \<Rightarrow> True | Some v \<Rightarrow> py_eq_int v 0)
              then Some (JInt 1) else m)"
proof -
  from assms(1) obtain items where j: "j = JObj items"
    by (cases j) (simp_all add: merge_settings_def)
  let ?m = "dict_merge (dict_merge dflt (py_dict_of items)) cli"
  have m: "dict_get ?m k =
      first_some (dict_get cli k) (first_some (dict_get (py_dict_of items) k) (dict_get dflt k))" for k
  proof -
    have "dict_get (py_dict_of (py_dict_of items)) k = dict_get (py_dict_of items) k"
      by (rule dict_get_py_dict_of_distinct) (simp add: py_dict_of_def distinct_dict_merge)
    then show ?thesis 
      by (simp add: dict_get_merge dict_get_py_dict_of_distinct [OF assms(2)])
  qed
  from assms(1) have st: "st = (if (case dict_get ?m ''split'' of None \<Rightarrow> True | Some v \<Rightarrow> py_eq_int v 0)
                then dict_set ''split'' (JInt 1) ?m else ?m)"
    by (simp add: merge_settings_def j Let_def)
  have "dict_get st k =
          (let m = first_some (dict_get cli k) (first_some (dict_get (py_dict_of items) k) (dict_get dflt k))
           in if k = ''split'' \<and> (case m of None \<Rightarrow> True | Some v \<Rightarrow> py_eq_int v 0)
              then Some (JInt 1) else m)" for k
    unfolding st Let_def by (auto simp: dict_get_set m)
  with j that show ?thesis by blast
qed


lemma load_config_file:
  assumes "load_config cfg s a = (out, Inr j)"
  shows "case config_path cfg a of None \<Rightarrow> j = JObj [] | Some p \<Rightarrow> fs s p = Content j"
  using assms
  by (auto simp: load_config_def resume_stage_def config_stage_def config_path_def Let_def
      load_json_def path_exists_def
      split: option.splits sum.splits if_splits prod.splits fs_entry.splits)

lemma load_settings_Inr:
  assumes "load_settings cfg s a = (out, f, Inr st)"
  obtains out1 items cli where
    "load_config cfg s a = (out1, Inr (JObj items))"
    "settings_cli (py_int s) a = Inr cli"
    "merge_settings (settings_default cfg a) (JObj items) cli = Inr st"
    "length (argv s) \<noteq> 1"
proof -
  from assms have n: "length (argv s) \<noteq> 1"
    by (auto simp: load_settings_def split: if_splits)
  obtain out1 r where lc: "load_config cfg s a = (out1, r)" by (cases "load_config cfg s a")
  from assms n lc obtain j where r: "r = Inr j"
    by (cases r) (auto simp: load_settings_def)
  from assms n lc r obtain cli where cli: "settings_cli (py_int s) a = Inr cli"
    by (cases "settings_cli (py_int s) a") (auto simp: load_settings_def)
  from assms n lc r cli have m: "merge_settings (settings_default cfg a) j cli = Inr st"
    by (cases "merge_settings (settings_default cfg a) j cli")
      (auto simp: load_settings_def missing_parameters_def dump_settings_def
        split: option.splits if_splits)
  then obtain items where "j = JObj items"
    by (cases j) (simp_all add: merge_settings_def)
  with lc r cli m n that show ?thesis by blast
qed

lemma load_settings_value:
  assumes "load_settings cfg s a = (out, f, Inr st)"
  obtains out1 items where
    "load_config cfg s a = (out1, Inr (JObj items))"
    "\<And>k. dict_get st k =
       (let m = merged_value cfg s a items k
        in if k = ''split'' \<and> (case m of None \<Rightarrow> True | Some v \<Rightarrow> py_eq_int v 0)
           then Some (JInt 1) else m)"
proof -
  from load_settings_Inr [OF assms] obtain out1 items cli where
    lc: "load_config cfg s a = (out1, Inr (JObj items))" and
    cli: "settings_cli (py_int s) a = Inr cli" and
    m: "merge_settings (settings_default cfg a) (JObj items) cli = Inr st"
    by blast
  from merge_settings_value [OF m distinct_settings_cli [OF cli]] 
  have "dict_get st k =
       (let m = merged_value cfg s a items k
        in if k = ''split'' \<and> (case m of None \<Rightarrow> True | Some v \<Rightarrow> py_eq_int v 0)
           then Some (JInt 1) else m)" for k
    by (auto simp: merged_value_def dict_get_settings_cli [OF cli])
  with lc that show ?thesis by blast
qed

subsection \<open>The example run, evaluated\<close>

lemma decimal_900: "decimal ''900'' = Some 900"
  by (simp add: decimal_def)

lemma example_load_config:
  "load_config example_config example_sys example_args =
     ([Log_debug_config_loaded],
      Inr (JObj [(''split'', JInt 0), (''organizer'', JStr ''RMIT''),
                 (''www_dir'', JStr ''www''), (''upload_replays'', JBool False)]))"
  by (simp add: load_config_def resume_stage_def config_stage_def example_args_def
      default_args_def example_sys_def example_fs_def path_exists_def load_json_def)

lemma example_settings_cli:
  "settings_cli decimal example_args =
     Inr [(''organizer'', JStr ''Uni Pacman''), (''workers_file'', JStr ''workers.json''),
          (''max_steps'', JInt 900), (''upload_replays'', JBool True), (''upload_logs'', JBool True)]"
  by (simp add: settings_cli_def collect_plain_def collect_layouts_def collect_flags_def
      example_args_def default_args_def set_str_def set_flag_def set_int_def set_int_list_def
      set_str_list_def dict_set_def decimal_900)

lemma example_merge:
  "merge_settings (settings_default example_config example_args)
     (JObj [(''split'', JInt 0), (''organizer'', JStr ''RMIT''),
            (''www_dir'', JStr ''www''), (''upload_replays'', JBool False)])
     [(''organizer'', JStr ''Uni Pacman''), (''workers_file'', JStr ''workers.json''),
      (''max_steps'', JInt 900), (''upload_replays'', JBool True), (''upload_logs'', JBool True)] =
   Inr example_settings"
  by (simp add: merge_settings_def settings_default_def
      example_config_def example_args_def default_args_def py_dict_of_def dict_merge_def
      dict_set_def dict_get_def example_settings_def)

lemma example_dump:
  "dump_settings example_sys example_args example_settings = ([], example_fs, Inr example_settings)"
  by (simp add: dump_settings_def example_args_def default_args_def example_sys_def)

lemma example_load_settings:
  "load_settings example_config example_sys example_args =
     ([Log_debug_config_loaded], example_fs, Inr example_settings)"
proof -
  have "length (argv example_sys) \<noteq> 1" "py_int example_sys = decimal"
    by (simp_all add: example_sys_def)
  moreover have "missing_parameters example_settings = []"
    by (simp add: missing_parameters_def)
  ultimately show ?thesis
    by (simp add: load_settings_def example_load_config example_settings_cli example_merge
        example_dump)
qed

subsection \<open>The settings that are returned\<close>

lemma cli_value_split: "cli_value to_int a ''split'' = when_value (split a \<noteq> 0) (JInt (split a))"
  by (simp add: cli_value_def cli_options_def)

lemma cli_value_upload_replays:
  "cli_value to_int a ''upload_replays'' = flag_value (upload_all a \<or> upload_replays a)"
  by (simp add: cli_value_def cli_options_def)

lemma cli_value_upload_logs:
  "cli_value to_int a ''upload_logs'' = flag_value (upload_all a \<or> upload_logs a)"
  by (simp add: cli_value_def cli_options_def)

lemma load_settings_config_items:
  assumes "load_settings cfg s a = (out, f, Inr st)"
  obtains items where
    "case config_path cfg a of None \<Rightarrow> items = [] | Some p \<Rightarrow> fs s p = Content (JObj items)"
    "\<And>k. dict_get st k =
       (let m = merged_value cfg s a items k
        in if k = ''split'' \<and> (case m of None \<Rightarrow> True | Some v \<Rightarrow> py_eq_int v 0)
           then Some (JInt 1) else m)"
proof -
  from load_settings_value [OF assms] obtain out1 items where
    lc: "load_config cfg s a = (out1, Inr (JObj items))" and
    v: "\<And>k. dict_get st k =
       (let m = merged_value cfg s a items k
        in if k = ''split'' \<and> (case m of None \<Rightarrow> True | Some v \<Rightarrow> py_eq_int v 0)
           then Some (JInt 1) else m)"
    by blast
  from load_config_file [OF lc]
  have "case config_path cfg a of None \<Rightarrow> items = [] | Some p \<Rightarrow> fs s p = Content (JObj items)"
    by (simp split: option.splits)
  with v that show ?thesis by blast
qed

text \<open>
  Claim C9. \<^verbatim>\<open>load_settings\<close> never returns settings whose \<^verbatim>\<open>"split"\<close> equals 0: the
  returned settings always have the key, its value is the merged one (the \<^verbatim>\<open>--split\<close>
  that was passed, else the value of the configuration file, else the 0 of the command
  line default) with every value that Python compares equal to 0 replaced by 1. A run
  with no \<^verbatim>\<open>--split\<close> and no split in its configuration file has split 1: one league.
\<close>

theorem C9_split_never_zero:
  assumes "load_settings cfg s a = (out, f, Inr settings)"
  shows "\<exists>items v.
           (case config_path cfg a of
              None \<Rightarrow> items = []
            | Some p \<Rightarrow> fs s p = Content (JObj items)) \<and>
           dict_get settings ''split'' = Some v \<and> \<not> py_eq_int v 0 \<and>
           v = (let m = (if split a \<noteq> 0 then JInt (split a)
                         else case dict_get (py_dict_of items) ''split'' of
                                None \<Rightarrow> JInt 0 | Some x \<Rightarrow> x)
                in if py_eq_int m 0 then JInt 1 else m) \<and>
           (split a = 0 \<and> dict_get (py_dict_of items) ''split'' = None \<longrightarrow> v = JInt 1)"
proof -
  from load_settings_config_items [OF assms] obtain items where
    c: "case config_path cfg a of None \<Rightarrow> items = [] | Some p \<Rightarrow> fs s p = Content (JObj items)"
    and v: "\<And>k. dict_get settings k =
       (let m = merged_value cfg s a items k
        in if k = ''split'' \<and> (case m of None \<Rightarrow> True | Some v \<Rightarrow> py_eq_int v 0)
           then Some (JInt 1) else m)"
    by blast
  define m where "m = (if split a \<noteq> 0 then JInt (split a)
                         else case dict_get (py_dict_of items) ''split'' of
                                None \<Rightarrow> JInt 0 | Some x \<Rightarrow> x)"
  have d: "dict_get (settings_default cfg a) ''split'' = Some (JInt (split a))"
    by (simp add: settings_default_def dict_get_def)
  have "merged_value cfg s a items ''split'' = Some m"
    by (simp add: merged_value_def cli_value_split when_value_def d m_def first_some_def
        split: option.splits)
  then have "dict_get settings ''split'' = Some (if py_eq_int m 0 then JInt 1 else m)"
    by (simp add: v)
  then show ?thesis
    using c unfolding m_def Let_def
    by (intro exI [of _ items] exI [of _ "if py_eq_int m 0 then JInt 1 else m"])
      (auto simp: m_def)
qed

theorem C9_split_never_zero_witness:
  "dict_get example_settings ''split'' = Some (JInt 1) \<and> split example_args = 0 \<and>
   example_fs ''c.json'' = Content (JObj [(''split'', JInt 0), (''organizer'', JStr ''RMIT''),
                       (''www_dir'', JStr ''www''), (''upload_replays'', JBool False)])"
  using C9_split_never_zero [OF example_load_settings]
  by (simp add: example_settings_def dict_get_def example_args_def default_args_def example_fs_def)

subsection \<open>The precedence of the layers\<close>

lemma cli_None_default:
  assumes "cli_value to_int a k = None" and "k \<noteq> ''split''"
  shows "dict_get (settings_default cfg a) k = builtin_default cfg k"
proof -
  have "\<not> upload_replays a" if "k = ''upload_replays''"
    using assms(1) that by (auto simp: cli_value_upload_replays flag_value_def when_value_def split: if_splits)
  moreover have "\<not> upload_logs a" if "k = ''upload_logs''"
    using assms(1) that by (auto simp: cli_value_upload_logs flag_value_def when_value_def split: if_splits)
  moreover have "\<not> allow_non_registered_students a" if "k = ''allow_non_registered_students''"
    using assms(1) that
    by (auto simp: cli_value_def cli_options_def flag_value_def when_value_def split: if_splits)
  ultimately show ?thesis
    using assms(2) by (simp add: settings_default_def builtin_default_def dict_get_def)
qed

text \<open>
  Claim C2, as amended. For every settings key other than \<^verbatim>\<open>organizer\<close> and
  \<^verbatim>\<open>fixed_layouts_file\<close>, the value \<^verbatim>\<open>load_settings\<close> returns is the value the command line
  supplies for the key (an option passed with a non-empty value, for \<^verbatim>\<open>--split\<close> a value
  other than 0, \<^verbatim>\<open>--resume-contest-folder\<close> with any value; the table \<open>cli_options\<close>),
  otherwise the value of the key in the
  configuration file that is read, otherwise the built-in default; and a split that
  comes out equal to 0 is returned as 1.
\<close>

theorem C2_layered_settings:
  assumes "load_settings cfg s a = (out, f, Inr settings)"
    and "k \<noteq> ''organizer''" and "k \<noteq> ''fixed_layouts_file''"
  shows "\<exists>items.
           (case config_path cfg a of
              None \<Rightarrow> items = []
            | Some p \<Rightarrow> fs s p = Content (JObj items)) \<and>
           dict_get settings k =
             (let m = first_some (cli_value (py_int s) a k)
                        (first_some (dict_get (py_dict_of items) k) (builtin_default cfg k))
              in if k = ''split'' \<and> (case m of None \<Rightarrow> True | Some v \<Rightarrow> py_eq_int v 0)
                 then Some (JInt 1) else m)"
proof -
  from load_settings_config_items [OF assms(1)] obtain items where
    c: "case config_path cfg a of None \<Rightarrow> items = [] | Some p \<Rightarrow> fs s p = Content (JObj items)"
    and v: "\<And>k. dict_get settings k =
       (let m = merged_value cfg s a items k
        in if k = ''split'' \<and> (case m of None \<Rightarrow> True | Some v \<Rightarrow> py_eq_int v 0)
           then Some (JInt 1) else m)"
    by blast
  have "dict_get settings k =
             (let m = first_some (cli_value (py_int s) a k)
                        (first_some (dict_get (py_dict_of items) k) (builtin_default cfg k))
              in if k = ''split'' \<and> (case m of None \<Rightarrow> True | Some v \<Rightarrow> py_eq_int v 0)
                 then Some (JInt 1) else m)"
  proof (cases "k = ''split''")
    case True
    have d: "dict_get (settings_default cfg a) ''split'' = Some (JInt (split a))"
      "builtin_default cfg ''split'' = Some (JInt 1)"
      by (simp_all add: settings_default_def dict_get_def builtin_default_def)
    have "dict_get settings ''split'' =
             (let m = first_some (cli_value (py_int s) a ''split'')
                        (first_some (dict_get (py_dict_of items) ''split'')
                           (builtin_default cfg ''split''))
              in if (case m of None \<Rightarrow> True | Some v \<Rightarrow> py_eq_int v 0)
                 then Some (JInt 1) else m)"
      by (cases "dict_get (py_dict_of items) ''split''")
        (simp_all add: v merged_value_def cli_value_split d when_value_def)
    then show ?thesis by (simp add: True)
  next
    case False
    show ?thesis
    proof (cases "cli_value (py_int s) a k")
      case None
      from cli_None_default [OF None False] show ?thesis
        unfolding v [of k] merged_value_def by (simp add: False None)
    next
      case (Some x)
      then show ?thesis unfolding v [of k] merged_value_def by (simp add: False)
    qed
  qed
  with c show ?thesis by blast
qed

text \<open>
  The example run: \<^verbatim>\<open>--max-steps 900\<close> gives \<^verbatim>\<open>max_steps\<close> 900, \<^verbatim>\<open>www_dir\<close> comes from the
  file, \<^verbatim>\<open>no_fixed_layouts\<close> from the defaults.
\<close>

theorem C2_layered_settings_witness:
  "snd (snd (load_settings example_config example_sys example_args)) = Inr example_settings \<and>
   max_steps example_args = Some ''900'' \<and>
   dict_get example_settings ''max_steps'' = Some (JInt 900) \<and>
   dict_get example_settings ''www_dir'' = Some (JStr ''www'') \<and>
   dict_get example_settings ''no_fixed_layouts'' = Some (DEFAULT_FIXED_LAYOUTS example_config)"
proof -
  have "snd (snd (load_settings example_config example_sys example_args)) = Inr example_settings"
    by (simp add: example_load_settings)
  moreover have "max_steps example_args = Some ''900'' \<and>
      dict_get example_settings ''max_steps'' = Some (JInt 900) \<and>
      dict_get example_settings ''www_dir'' = Some (JStr ''www'') \<and>
      dict_get example_settings ''no_fixed_layouts'' = Some (DEFAULT_FIXED_LAYOUTS example_config)"
    by (simp add: example_settings_def dict_get_def example_args_def default_args_def
        example_config_def)
  ultimately show ?thesis
    using C2_layered_settings [OF example_load_settings, of "''max_steps''"] by simp
qed

text \<open>
  Claim C2 as stated fails in the example run, which passes neither \<^verbatim>\<open>--split\<close> nor
  \<^verbatim>\<open>--organizer\<close> and reads a configuration file with split 0 and organizer RMIT: the
  returned split is 1, not the 0 of the file; the returned organizer is the \<^verbatim>\<open>argparse\<close>
  default, not the value of the file; and the \<^verbatim>\<open>--fixed-layouts-file\<close> that was passed is
  not returned.
\<close>

theorem C2_precedence_counterexample:
  "snd (snd (load_settings example_config example_sys example_args)) = Inr example_settings \<and>
   example_fs ''c.json'' =
     Content (JObj [(''split'', JInt 0), (''organizer'', JStr ''RMIT''),
                    (''www_dir'', JStr ''www''), (''upload_replays'', JBool False)]) \<and>
   config_file example_args = Some ''c.json'' \<and>
   split example_args = 0 \<and> ''--split'' \<notin> set (argv example_sys) \<and>
   dict_get example_settings ''split'' = Some (JInt 1) \<and>
   ''--organizer'' \<notin> set (argv example_sys) \<and>
   dict_get example_settings ''organizer'' = Some (JStr ''Uni Pacman'') \<and>
   fixed_layouts_file example_args = Some ''my.zip'' \<and>
   dict_get example_settings ''fixed_layouts_file'' = Some (JStr ''layouts.zip'')"
proof -
  have "snd (snd (load_settings example_config example_sys example_args)) = Inr example_settings"
    by (simp add: example_load_settings)
  then show ?thesis
    by (simp add: example_settings_def dict_get_def example_args_def
        default_args_def example_fs_def example_sys_def)
qed

subsection \<open>Resuming a run\<close>

lemma resume_load_config:
  "load_config example_config resume_sys resume_args =
     ([Log_debug_resume_loaded, Log_warning_config_ignored],
      Inr (JObj [(''teams_root'', JStr ''teamsA''),
                 (''fixed_layout_seeds'', JArr [JStr ''contest02cCapture'']),
                 (''split'', JInt 2), (''www_dir'', JStr ''www''),
                 (''workers_file'', JStr ''workers.json'')]))"
  by (simp add: load_config_def resume_stage_def config_stage_def resume_args_def
      default_args_def resume_sys_def resume_fs_def path_exists_def load_json_def
      example_config_def path_join_def py_dict_of_def dict_merge_def dict_set_def dict_get_def)

lemma resume_settings_cli:
  "settings_cli decimal resume_args =
     Inr [(''resume_contest_folder'', JStr ''run1''), (''organizer'', JStr ''Uni Pacman''),
          (''teams_root'', JStr ''teamsB''),
          (''fixed_layout_seeds'', JArr [JStr ''contest12Capture'']), (''split'', JInt 2)]"
  by (simp add: settings_cli_def collect_plain_def collect_layouts_def collect_flags_def
      resume_args_def default_args_def set_str_def set_flag_def set_int_def set_int_list_def
      set_str_list_def dict_set_def)

lemma resume_merge:
  "merge_settings (settings_default example_config resume_args)
     (JObj [(''teams_root'', JStr ''teamsA''),
            (''fixed_layout_seeds'', JArr [JStr ''contest02cCapture'']),
            (''split'', JInt 2), (''www_dir'', JStr ''www''),
            (''workers_file'', JStr ''workers.json'')])
     [(''resume_contest_folder'', JStr ''run1''), (''organizer'', JStr ''Uni Pacman''),
      (''teams_root'', JStr ''teamsB''),
      (''fixed_layout_seeds'', JArr [JStr ''contest12Capture'']), (''split'', JInt 2)] =
   Inr resume_settings"
  by (simp add: merge_settings_def settings_default_def
      example_config_def resume_args_def default_args_def py_dict_of_def dict_merge_def
      dict_set_def dict_get_def resume_settings_def)

lemma resume_dump:
  "dump_settings resume_sys resume_args resume_settings = ([], resume_fs, Inr resume_settings)"
  by (simp add: dump_settings_def resume_args_def default_args_def resume_sys_def)

lemma resume_load_settings:
  "load_settings example_config resume_sys resume_args =
     ([Log_debug_resume_loaded, Log_warning_config_ignored], resume_fs, Inr resume_settings)"
proof -
  have "length (argv resume_sys) \<noteq> 1" "py_int resume_sys = decimal"
    by (simp_all add: resume_sys_def)
  moreover have "missing_parameters resume_settings = []"
    by (simp add: missing_parameters_def)
  ultimately show ?thesis
    by (simp add: load_settings_def resume_load_config resume_settings_cli resume_merge
        resume_dump)
qed

text \<open>
  Claim C1 as stated fails: a resume run whose team roster and layout set differ from
  the stored ones (the split is the same) is not rejected. \<^verbatim>\<open>load_settings\<close> returns, with
  the values of the command line in place of the stored ones.
\<close>

theorem C1_resume_mismatch_counterexample:
  "resume_contest_folder resume_args = Some ''run1'' \<and>
   resume_fs (path_join ''run1'' (DEFAULT_CONFIG_FILE example_config)) =
     Content (JObj [(''teams_root'', JStr ''teamsA''),
                    (''fixed_layout_seeds'', JArr [JStr ''contest02cCapture'']),
                    (''split'', JInt 2), (''www_dir'', JStr ''www''),
                    (''workers_file'', JStr ''workers.json'')]) \<and>
   teams_root resume_args = Some ''teamsB'' \<and>
   fixed_layout_seeds resume_args = Some ''contest12Capture'' \<and>
   snd (snd (load_settings example_config resume_sys resume_args)) = Inr resume_settings \<and>
   dict_get resume_settings ''teams_root'' = Some (JStr ''teamsB'') \<and>
   dict_get resume_settings ''fixed_layout_seeds'' = Some (JArr [JStr ''contest12Capture''])"
proof -
  have "snd (snd (load_settings example_config resume_sys resume_args)) = Inr resume_settings"
    by (simp add: resume_load_settings)
  then show ?thesis
    by (simp add: resume_settings_def dict_get_def resume_args_def default_args_def
        resume_fs_def example_config_def path_join_def)
qed

lemma argv_consistent_resume:
  "argv_consistent s a \<Longrightarrow> resume_contest_folder a \<noteq> None \<Longrightarrow> length (argv s) \<noteq> 1"
  by (auto simp: argv_consistent_def default_args_def split: if_splits)

lemma argv_consistent_config:
  "argv_consistent s a \<Longrightarrow> config_file a \<noteq> None \<Longrightarrow> length (argv s) \<noteq> 1"
  by (auto simp: argv_consistent_def default_args_def split: if_splits)

lemma load_settings_config_error:
  assumes "length (argv s) \<noteq> 1" and "load_config cfg s a = (out, Inl e)"
  shows "load_settings cfg s a = (out, fs s, Inl e)"
  using assms by (simp add: load_settings_def)

lemma main_load_error:
  assumes "load_settings cfg s a = (out, f, Inl e)"
  shows "main cfg s ext a = (out, f, [], Inl e)"
  using assms by (simp add: main_def)

text \<open>
  Claim C1, as amended. With a resume folder whose stored configuration is an object
  with a \<^verbatim>\<open>"split"\<close>, \<^verbatim>\<open>load_settings\<close> logs the mismatch and exits with status 1 when a
  \<^verbatim>\<open>--split\<close> other than 0 was passed and differs from the stored split. Nothing else of
  the plan is compared.
\<close>

theorem C1_split_mismatch:
  assumes "argv_consistent s a"
    and "resume_contest_folder a = Some d"
    and "fs s (path_join d (DEFAULT_CONFIG_FILE cfg)) = Content (JObj items)"
    and "dict_get (py_dict_of items) ''split'' = Some v"
    and "split a \<noteq> 0"
    and "\<not> py_eq_int v (split a)"
  shows "load_settings cfg s a =
           ([Log_debug_resume_loaded, Log_error_split_mismatch (split a) v], fs s,
            Inl (SystemExit 1))"
proof -
  have "resume_stage cfg s a =
      ([Log_debug_resume_loaded, Log_error_split_mismatch (split a) v], Inl (SystemExit 1))"
    using assms(2-6) by (simp add: resume_stage_def path_exists_def load_json_def)
  then have "load_config cfg s a =
      ([Log_debug_resume_loaded, Log_error_split_mismatch (split a) v], Inl (SystemExit 1))"
    by (simp add: load_config_def)
  with argv_consistent_resume [OF assms(1)] assms(2) show ?thesis
    by (simp add: load_settings_config_error)
qed

text \<open>
  Resuming the stored run, which has split 2, with \<^verbatim>\<open>--split 3\<close>.
\<close>

theorem C1_split_mismatch_witness:
  "load_settings example_config mismatch_sys mismatch_args =
     ([Log_debug_resume_loaded, Log_error_split_mismatch 3 (JInt 2)], resume_fs,
      Inl (SystemExit 1))"
proof -
  have 1: "argv_consistent mismatch_sys mismatch_args"
    by (simp add: argv_consistent_def mismatch_sys_def)
  have 2: "resume_contest_folder mismatch_args = Some ''run1''"
    by (simp add: mismatch_args_def)
  have 3: "fs mismatch_sys (path_join ''run1'' (DEFAULT_CONFIG_FILE example_config)) =
     Content (JObj [(''teams_root'', JStr ''teamsA''),
                    (''fixed_layout_seeds'', JArr [JStr ''contest02cCapture'']),
                    (''split'', JInt 2), (''www_dir'', JStr ''www''),
                    (''workers_file'', JStr ''workers.json'')])"
    by (simp add: mismatch_sys_def resume_sys_def resume_fs_def path_join_def example_config_def)
  have 4: "dict_get (py_dict_of [(''teams_root'', JStr ''teamsA''),
                    (''fixed_layout_seeds'', JArr [JStr ''contest02cCapture'']),
                    (''split'', JInt 2), (''www_dir'', JStr ''www''),
                    (''workers_file'', JStr ''workers.json'')]) ''split'' = Some (JInt 2)"
    by (simp add: py_dict_of_def dict_merge_def dict_set_def dict_get_def)
  have 5: "split mismatch_args \<noteq> 0" "\<not> py_eq_int (JInt 2) (split mismatch_args)"
    "split mismatch_args = 3" "fs mismatch_sys = resume_fs"
    by (simp_all add: mismatch_args_def mismatch_sys_def resume_sys_def)
  from C1_split_mismatch [OF 1 2 3 4 5(1) 5(2)] show ?thesis
    by (simp add: 5)
qed

subsection \<open>Configuration errors\<close>

text \<open>
  Claim C3, as amended. When the configuration file that \<^verbatim>\<open>load_settings\<close> has to read
  does not exist (the \<^verbatim>\<open>--config-file\<close> of a run without a resume folder, or the stored
  file of the resume folder), \<^verbatim>\<open>load_settings\<close> ends with \<^verbatim>\<open>sys.exit(1)\<close>, the file system
  untouched, and the script makes no call at all: no host is constructed and no contest
  is run. With a resume folder the \<^verbatim>\<open>--config-file\<close> is not read, and its absence is not
  an error.
\<close>

theorem C3_config_error_stops:
  assumes "argv_consistent s a"
    and "(resume_contest_folder a = None \<and> config_file a = Some p \<and> fs s p = Missing) \<or>
         (resume_contest_folder a = Some d \<and>
          fs s (path_join d (DEFAULT_CONFIG_FILE cfg)) = Missing)"
  shows "\<exists>out e. load_settings cfg s a = (out, fs s, Inl e) \<and>
           e = SystemExit 1 \<and> exit_status e \<noteq> 0 \<and>
           main cfg s ext a = (out, fs s, [], Inl e)"
proof -
  from assms have n: "length (argv s) \<noteq> 1"
    using argv_consistent_resume [of s a] argv_consistent_config [of s a] by auto
  from assms(2) obtain out where "load_config cfg s a = (out, Inl (SystemExit 1))"
    by (auto simp: load_config_def resume_stage_def config_stage_def path_exists_def)
  from load_settings_config_error [OF n this]
  have l: "load_settings cfg s a = (out, fs s, Inl (SystemExit 1))" .
  from main_load_error [OF this] have "main cfg s ext a = (out, fs s, [], Inl (SystemExit 1))" .
  with l show ?thesis by simp
qed

text \<open>
  A run with \<^verbatim>\<open>--config-file nowhere.json\<close>, a file that does not exist.
\<close>

theorem C3_config_error_stops_witness:
  "argv_consistent missing_sys missing_args \<and>
   resume_contest_folder missing_args = None \<and>
   config_file missing_args = Some ''nowhere.json'' \<and>
   fs missing_sys ''nowhere.json'' = Missing \<and>
   snd (snd (load_settings example_config missing_sys missing_args)) = Inl (SystemExit 1) \<and>
   snd (snd (main example_config missing_sys silent_ext missing_args)) = ([], Inl (SystemExit 1))"
proof -
  have 1: "argv_consistent missing_sys missing_args"
    by (simp add: argv_consistent_def missing_sys_def)
  have 2: "resume_contest_folder missing_args = None \<and>
      config_file missing_args = Some ''nowhere.json'' \<and> fs missing_sys ''nowhere.json'' = Missing"
    by (simp add: missing_args_def default_args_def missing_sys_def example_sys_def example_fs_def)
  from C3_config_error_stops [OF 1 disjI1 [OF 2], of example_config silent_ext] 1 2
  show ?thesis by auto
qed

subsection \<open>The configuration of a resumed run\<close>

lemma config_path_resume:
  "resume_contest_folder a = Some d \<Longrightarrow>
   config_path cfg a = Some (path_join d (DEFAULT_CONFIG_FILE cfg))"
  by (simp add: config_path_def)


lemma resume_folder: "resume_contest_folder resume_args = Some ''run1''"
  by (simp add: resume_args_def)

lemma collect_plain_config_file:
  "collect_plain (a\<lparr>config_file := x\<rparr>) c = collect_plain a c"
  by (simp add: collect_plain_def Let_def cong: if_cong)

lemma collect_layouts_config_file:
  "collect_layouts to_int (a\<lparr>config_file := x\<rparr>) c = collect_layouts to_int a c"
  by (simp add: collect_layouts_def cong: sum.case_cong)

lemma collect_flags_config_file:
  "collect_flags (a\<lparr>config_file := x\<rparr>) c = collect_flags a c"
  by (simp add: collect_flags_def Let_def cong: if_cong)

lemma settings_cli_config_file:
  "settings_cli to_int (a\<lparr>config_file := x\<rparr>) = settings_cli to_int a"
  by (simp add: settings_cli_def collect_plain_config_file collect_layouts_config_file
      collect_flags_config_file cong: sum.case_cong)

lemma settings_default_config_file:
  "settings_default cfg (a\<lparr>config_file := x\<rparr>) = settings_default cfg a"
  by (simp add: settings_default_def)

lemma dump_settings_config_file:
  "dump_settings s (a\<lparr>config_file := x\<rparr>) st = dump_settings s a st"
  by (simp add: dump_settings_def)

lemma resume_stage_config_file:
  "resume_stage cfg s (a\<lparr>config_file := x\<rparr>) = resume_stage cfg s a"
  by (simp add: resume_stage_def Let_def split: option.splits sum.splits)

lemma load_config_ignored:
  assumes "resume_contest_folder a = Some d" and "config_file a = Some p"
  shows "snd (load_config cfg s a) = snd (load_config cfg s (a\<lparr>config_file := None\<rparr>))"
    and "load_config cfg s a = (out, Inr j) \<Longrightarrow> Log_warning_config_ignored \<in> set out"
  using assms
  by (auto simp: load_config_def resume_stage_config_file config_stage_def
      split: prod.splits sum.splits)

lemma load_config_other_file:
  assumes "resume_contest_folder a = Some d"
    and "p \<noteq> path_join d (DEFAULT_CONFIG_FILE cfg)"
  shows "load_config cfg (s\<lparr>fs := (fs s)(p := e)\<rparr>) a = load_config cfg s a"
  using assms
proof -
  have f: "((fs s)(p := e)) (path_join d (DEFAULT_CONFIG_FILE cfg)) =
      fs s (path_join d (DEFAULT_CONFIG_FILE cfg))"
    using assms(2) by simp
  have "resume_stage cfg (s\<lparr>fs := (fs s)(p := e)\<rparr>) a = resume_stage cfg s a"
    using assms(1) not_sym [OF assms(2)]
    by (simp add: resume_stage_def path_exists_def load_json_def Let_def)
  moreover have "config_stage (s\<lparr>fs := (fs s)(p := e)\<rparr>) a j = config_stage s a j" for j
    using assms(1) by (simp add: config_stage_def split: option.splits)
  ultimately show ?thesis by (simp add: load_config_def split: prod.splits sum.splits)
qed

lemma dump_settings_result:
  "snd (snd (dump_settings (s\<lparr>fs := g\<rparr>) a st)) = snd (snd (dump_settings s a st))"
  by (simp add: dump_settings_def split: option.splits)

lemma load_settings_result_eq:
  assumes "length (argv s') = length (argv s)"
    and "snd (load_config cfg s' a') = snd (load_config cfg s a)"
    and "settings_cli (py_int s') a' = settings_cli (py_int s) a"
    and "settings_default cfg a' = settings_default cfg a"
    and "\<And>st. snd (snd (dump_settings s' a' st)) = snd (snd (dump_settings s a st))"
  shows "snd (snd (load_settings cfg s' a')) = snd (snd (load_settings cfg s a))"
proof -
  obtain o1 r1 where 1: "load_config cfg s a = (o1, r1)" by (cases "load_config cfg s a")
  obtain o2 r2 where 2: "load_config cfg s' a' = (o2, r2)" by (cases "load_config cfg s' a'")
  from assms(2) 1 2 have r: "r2 = r1" by simp
  show ?thesis
    unfolding load_settings_def 1 2 r assms(1) assms(3) assms(4)
    using assms(5)
    by (auto split: sum.splits prod.splits) (metis snd_conv)
qed

text \<open>
  Claim C8. With a resume folder and a \<^verbatim>\<open>--config-file\<close>: the file system left and the
  result (the settings or the error) are those of the same run without \<^verbatim>\<open>--config-file\<close>;
  they do not change when the content of the explicit file changes (the explicit file
  being another file than the stored one); and when settings are returned, the warning
  was logged and every value is the one merged from the defaults, the stored
  configuration and the command line layer.
\<close>

theorem C8_explicit_config_ignored:
  assumes "resume_contest_folder a = Some d" and "config_file a = Some p"
  shows "snd (snd (load_settings cfg s a)) =
           snd (snd (load_settings cfg s (a\<lparr>config_file := None\<rparr>))) \<and>
         (\<forall>e. p \<noteq> path_join d (DEFAULT_CONFIG_FILE cfg) \<longrightarrow>
            snd (snd (load_settings cfg (s\<lparr>fs := (fs s)(p := e)\<rparr>) a)) =
              snd (snd (load_settings cfg s a))) \<and>
         (\<forall>out f settings. load_settings cfg s a = (out, f, Inr settings) \<longrightarrow>
            Log_warning_config_ignored \<in> set out \<and>
            (\<exists>items. fs s (path_join d (DEFAULT_CONFIG_FILE cfg)) = Content (JObj items) \<and>
               (\<forall>k. dict_get settings k =
                  (let m = first_some (cli_value (py_int s) a k)
                             (first_some (dict_get (py_dict_of items) k)
                                (dict_get (settings_default cfg a) k))
                   in if k = ''split'' \<and> (case m of None \<Rightarrow> True | Some v \<Rightarrow> py_eq_int v 0)
                      then Some (JInt 1) else m))))"
proof (intro conjI allI impI)
  show "snd (snd (load_settings cfg s a)) =
           snd (snd (load_settings cfg s (a\<lparr>config_file := None\<rparr>)))"
    by (rule load_settings_result_eq [symmetric])
      (simp_all add: load_config_ignored(1) [OF assms] settings_cli_config_file
        settings_default_config_file dump_settings_config_file)
next
  fix e
  assume "p \<noteq> path_join d (DEFAULT_CONFIG_FILE cfg)"
  from load_config_other_file [OF assms(1) this]
  show "snd (snd (load_settings cfg (s\<lparr>fs := (fs s)(p := e)\<rparr>) a)) =
              snd (snd (load_settings cfg s a))"
    by (intro load_settings_result_eq) (simp_all add: dump_settings_result)
next
  fix out f settings
  assume l: "load_settings cfg s a = (out, f, Inr settings)"
  from load_settings_Inr [OF l] obtain out1 items cli where
    lc: "load_config cfg s a = (out1, Inr (JObj items))" and
    cli: "settings_cli (py_int s) a = Inr cli" and
    m: "merge_settings (settings_default cfg a) (JObj items) cli = Inr settings" and
    n: "length (argv s) \<noteq> 1"
    by blast
  from load_config_ignored(2) [OF assms lc] have "Log_warning_config_ignored \<in> set out1" .
  moreover from l lc cli m n have "set out1 \<subseteq> set out"
    by (auto simp: load_settings_def missing_parameters_def split: prod.splits)
  ultimately show "Log_warning_config_ignored \<in> set out" by blast
next
  fix out f settings
  assume l: "load_settings cfg s a = (out, f, Inr settings)"
  from load_settings_config_items [OF l] obtain items where
    c: "case config_path cfg a of None \<Rightarrow> items = [] | Some p \<Rightarrow> fs s p = Content (JObj items)"
    and v: "\<And>k. dict_get settings k =
       (let m = merged_value cfg s a items k
        in if k = ''split'' \<and> (case m of None \<Rightarrow> True | Some v \<Rightarrow> py_eq_int v 0)
           then Some (JInt 1) else m)"
    by blast
  from c have "fs s (path_join d (DEFAULT_CONFIG_FILE cfg)) = Content (JObj items)"
    by (simp add: config_path_resume [OF assms(1)])
  with v show "\<exists>items. fs s (path_join d (DEFAULT_CONFIG_FILE cfg)) = Content (JObj items) \<and>
               (\<forall>k. dict_get settings k =
                  (let m = first_some (cli_value (py_int s) a k)
                             (first_some (dict_get (py_dict_of items) k)
                                (dict_get (settings_default cfg a) k))
                   in if k = ''split'' \<and> (case m of None \<Rightarrow> True | Some v \<Rightarrow> py_eq_int v 0)
                      then Some (JInt 1) else m))"
    unfolding merged_value_def by blast
qed

lemma resume_config_file: "config_file resume_args = Some ''other.json''"
  by (simp add: resume_args_def)

text \<open>
  The resume run passes \<^verbatim>\<open>--config-file other.json\<close>, whose \<^verbatim>\<open>www_dir\<close> is not the one
  returned.
\<close>

theorem C8_explicit_config_ignored_witness:
  "resume_contest_folder resume_args = Some ''run1'' \<and>
   config_file resume_args = Some ''other.json'' \<and>
   resume_fs ''other.json'' = Content (JObj [(''www_dir'', JStr ''elsewhere'')]) \<and>
   load_settings example_config resume_sys resume_args =
     ([Log_debug_resume_loaded, Log_warning_config_ignored], resume_fs, Inr resume_settings) \<and>
   snd (snd (load_settings example_config resume_sys (resume_args\<lparr>config_file := None\<rparr>))) =
     Inr resume_settings \<and>
   dict_get resume_settings ''www_dir'' = Some (JStr ''www'')"
proof -
  have "resume_fs ''other.json'' = Content (JObj [(''www_dir'', JStr ''elsewhere'')]) \<and>
      dict_get resume_settings ''www_dir'' = Some (JStr ''www'')"
    by (simp add: resume_fs_def resume_settings_def dict_get_def)
  with C8_explicit_config_ignored [OF resume_folder resume_config_file, of example_config resume_sys]
    resume_folder resume_config_file resume_load_settings
  show ?thesis by simp
qed

subsection \<open>The order of the calls of a contest\<close>

lemma is_store_results_iff: "is_store_results e \<longleftrightarrow> (\<exists>r. fst e = store_results r)"
  by (cases "fst e") (simp_all add: is_store_results_def)

lemma is_add_run_iff: "is_add_run e \<longleftrightarrow> (\<exists>ts x y z. fst e = add_run ts x y z)"
  by (cases "fst e") (simp_all add: is_add_run_def)

lemma is_clean_up_iff: "is_clean_up e \<longleftrightarrow> (\<exists>r. fst e = clean_up r)"
  by (cases "fst e") (simp_all add: is_clean_up_def)

lemma is_Host_init_iff: "is_Host_init e \<longleftrightarrow> (\<exists>h. fst e = Host_init h)"
  by (cases "fst e") (simp_all add: is_Host_init_def)

lemma follows_Nil: "follows k T R []"
  by (simp add: follows_def)

lemma follows_append:
  assumes "follows k T R xs" and "follows k T R ys"
  shows "follows k T R (xs @ ys)"
  unfolding follows_def
proof (intro allI impI)
  fix n
  assume n: "n < length (xs @ ys)" and t: "T ((xs @ ys) ! n)"
  show "k \<le> n \<and> R (take k (drop (n - k) (xs @ ys))) ((xs @ ys) ! n)"
  proof (cases "n < length xs")
    case True
    with t have "T (xs ! n)" by (simp add: nth_append)
    with assms(1) True have kn: "k \<le> n" and r: "R (take k (drop (n - k) xs)) (xs ! n)"
      by (simp_all add: follows_def)
    from kn True have "k \<le> length xs - (n - k)" by simp
    then have "take k (drop (n - k) (xs @ ys)) = take k (drop (n - k) xs)" by simp
    with kn r True show ?thesis by (simp add: nth_append)
  next
    case False
    define m where "m = n - length xs"
    from False n have m: "m < length ys" "n = length xs + m" by (simp_all add: m_def)
    with t have "T (ys ! m)" by (simp add: nth_append)
    with assms(2) m have km: "k \<le> m" and r: "R (take k (drop (m - k) ys)) (ys ! m)"
      by (simp_all add: follows_def)
    from km have "n - k = length xs + (m - k)" by (simp add: m(2))
    then have "drop (n - k) (xs @ ys) = drop (m - k) ys" by simp
    moreover have "(xs @ ys) ! n = ys ! m" by (simp only: m(2) nth_append_length_plus)
    ultimately show ?thesis using km r by (simp add: m(2))
  qed
qed

lemma follows_snoc_other: "follows k T R tr \<Longrightarrow> \<not> T e \<Longrightarrow> follows k T R (tr @ [e])"
  by (rule follows_append) (simp_all add: follows_def)

lemma make_hosts_invariant:
  assumes "\<And>tr h. I tr \<Longrightarrow> I (tr @ [(Host_init h, ext tr (Host_init h))])"
    and "I tr" and "make_hosts ext tr ws = (tr', r)"
  shows "I tr'"
  using assms(2,3)
proof (induction ws arbitrary: tr tr' r)
  case Nil
  then show ?case by simp
next
  case (Cons w ws)
  show ?case
  proof (cases "host_args w")
    case (Inl e)
    with Cons show ?thesis by simp
  next
    case (Inr h)
    let ?t = "tr @ [(Host_init h, ext tr (Host_init h))]"
    have i: "I ?t" by (rule assms(1)) (rule Cons.prems(1))
    show ?thesis
    proof (cases "ext tr (Host_init h)")
      case Raised
      with Cons.prems Inr i show ?thesis by (simp add: ask_def)
    next
      case (Returned obj)
      obtain t2 r2 where m: "make_hosts ext ?t ws = (t2, r2)"
        by (cases "make_hosts ext ?t ws")
      from Cons.IH [OF i m] have "I t2" .
      with Cons.prems(2) Inr Returned m show ?thesis
        by (auto simp: ask_def split: sum.splits)
    qed
  qed
qed

lemma contest_loop_invariant:
  assumes "\<And>first tr r out tr' x.
             I tr \<Longrightarrow> run_one ext st hs rf first tr r = (out, tr', x) \<Longrightarrow> I tr'"
    and "I tr" and "contest_loop ext st hs rf first tr rs = (out, tr', x)"
  shows "I tr'"
  using assms(2,3)
proof (induction rs arbitrary: tr tr' first out x)
  case Nil
  then show ?case by simp
next
  case (Cons r rs)
  obtain o1 t1 x1 where r1: "run_one ext st hs rf first tr r = (o1, t1, x1)"
    by (cases "run_one ext st hs rf first tr r")
  from assms(1) [OF Cons.prems(1) r1] have i: "I t1" .
  show ?case
  proof (cases x1)
    case (Inl e)
    with Cons.prems(2) r1 i show ?thesis by simp
  next
    case (Inr u)
    obtain o2 t2 x2 where l: "contest_loop ext st hs rf False t1 rs = (o2, t2, x2)"
      by (cases "contest_loop ext st hs rf False t1 rs")
    from Cons.IH [OF i l] have "I t2" .
    with Cons.prems(2) r1 Inr l show ?thesis by simp
  qed
qed

lemma run_contests_invariant:
  assumes "\<And>tr st. I tr \<Longrightarrow> I (tr @ [(MultiContest_init st, ext tr (MultiContest_init st))])"
    and "\<And>tr. I tr \<Longrightarrow> I (tr @ [(create_contests, ext tr create_contests)])"
    and "\<And>st hs rf first tr r out tr' x.
             I tr \<Longrightarrow> run_one ext st hs rf first tr r = (out, tr', x) \<Longrightarrow> I tr'"
    and "I tr" and "run_contests ext st0 hs tr = (out, tr', x)"
  shows "I tr'"
proof (cases "dict_get st0 ''resume_contest_folder''")
  case None
  with assms(4,5) show ?thesis by (simp add: run_contests_def)
next
  case (Some rf)
  let ?st = "dict_del ''resume_contest_folder'' st0"
  let ?t1 = "tr @ [(MultiContest_init ?st, ext tr (MultiContest_init ?st))]"
  let ?t2 = "?t1 @ [(create_contests, ext ?t1 create_contests)]"
  have i1: "I ?t1" by (rule assms(1)) (rule assms(4))
  have i2: "I ?t2" by (rule assms(2)) (rule i1)
  show ?thesis
  proof (cases "ext tr (MultiContest_init ?st)")
    case Raised
    with assms(5) Some i1 show ?thesis by (auto simp: run_contests_def ask_def Let_def)
  next
    case r1: (Returned obj1)
    show ?thesis
    proof (cases "ext ?t1 create_contests")
      case Raised
      with assms(5) Some r1 i2 show ?thesis by (auto simp: run_contests_def ask_def Let_def)
    next
      case r2: (Returned contests)
      show ?thesis
      proof (cases "iter_runners contests")
        case (Inl e)
        with assms(5) Some r1 r2 i2 show ?thesis
          by (auto simp: run_contests_def ask_def Let_def)
      next
        case (Inr p)
        obtain rs ending where p: "p = (rs, ending)" by (cases p)
        obtain o3 t3 x3 where l: "contest_loop ext ?st hs rf True ?t2 rs = (o3, t3, x3)"
          by (cases "contest_loop ext ?st hs rf True ?t2 rs")
        from contest_loop_invariant [of I ext ?st hs rf, OF assms(3) i2 l] have "I t3" .
        with assms(5) Some r1 r2 Inr p l show ?thesis
          by (auto simp: run_contests_def ask_def Let_def split: sum.splits)
      qed
    qed
  qed
qed

lemma main_invariant:
  assumes "I []"
    and "\<And>tr h. I tr \<Longrightarrow> I (tr @ [(Host_init h, ext tr (Host_init h))])"
    and "\<And>tr st. I tr \<Longrightarrow> I (tr @ [(MultiContest_init st, ext tr (MultiContest_init st))])"
    and "\<And>tr. I tr \<Longrightarrow> I (tr @ [(create_contests, ext tr create_contests)])"
    and "\<And>st hs rf first tr r out tr' x.
             I tr \<Longrightarrow> run_one ext st hs rf first tr r = (out, tr', x) \<Longrightarrow> I tr'"
    and "main cfg s ext a = (out, f, tr, res)"
  shows "I tr"
proof -
  obtain o0 f0 r0 where l: "load_settings cfg s a = (o0, f0, r0)"
    by (cases "load_settings cfg s a")
  show ?thesis
  proof (cases r0)
    case (Inl e)
    with assms(1,6) l show ?thesis by (simp add: main_def)
  next
    case st: (Inr settings)
    show ?thesis
    proof (cases "read_workers s f0 settings")
      case (Inl e)
      with assms(1,6) l st show ?thesis by (simp add: main_def)
    next
      case wd: (Inr workers_details)
      show ?thesis
      proof (cases "py_iter workers_details")
        case (Inl e)
        with assms(1,6) l st wd show ?thesis by (simp add: main_def)
      next
        case ws: (Inr ws)
        obtain t1 r1 where m: "make_hosts ext [] ws = (t1, r1)"
          by (cases "make_hosts ext [] ws")
        from make_hosts_invariant [of I ext, OF assms(2) assms(1) m] have i1: "I t1" .
        show ?thesis
        proof (cases r1)
          case (Inl e)
          with assms(6) l st wd ws m i1 show ?thesis by (simp add: main_def)
        next
          case (Inr hosts)
          obtain o2 t2 r2 where rc: "run_contests ext settings hosts t1 = (o2, t2, r2)"
            by (cases "run_contests ext settings hosts t1")
          from run_contests_invariant [of I ext, OF assms(3) assms(4) assms(5) i1 rc]
          have "I t2" .
          with assms(6) l st wd ws m Inr rc show ?thesis by (simp add: main_def)
        qed
      qed
    qed
  qed
qed

lemma run_one_after_run:
  assumes "follows 1 is_store_results after_run tr"
    and "run_one ext st hs rf first tr r = (out, tr', x)"
  shows "follows 1 is_store_results after_run tr'"
  using assms
  apply (auto simp: run_one_def ask_def split: prod.splits reply.splits sum.splits option.splits
      intro!: follows_append)
  apply (auto simp: follows_def less_Suc_eq is_store_results_iff after_run_def)
  done

lemma run_one_after_store:
  assumes "follows 3 is_add_run after_store tr"
    and "run_one ext st hs rf first tr r = (out, tr', x)"
  shows "follows 3 is_add_run after_store tr'"
  using assms
  apply (auto simp: run_one_def ask_def split: prod.splits reply.splits sum.splits option.splits
      intro!: follows_append)
  apply (auto simp: follows_def less_Suc_eq is_add_run_iff after_store_def)
  done

lemma run_one_after_archive:
  assumes "follows 4 is_clean_up after_archive tr"
    and "run_one ext st hs rf first tr r = (out, tr', x)"
  shows "follows 4 is_clean_up after_archive tr'"
  using assms
  apply (auto simp: run_one_def ask_def split: prod.splits reply.splits sum.splits option.splits
      intro!: follows_append)
  apply (auto simp: follows_def less_Suc_eq is_clean_up_iff after_archive_def)
  done

lemma main_follows:
  assumes "\<And>h x. \<not> T (Host_init h, x)"
    and "\<And>st x. \<not> T (MultiContest_init st, x)"
    and "\<And>x. \<not> T (create_contests, x)"
    and "\<And>st hs rf first tr r out tr' x.
           follows k T R tr \<Longrightarrow> run_one ext st hs rf first tr r = (out, tr', x) \<Longrightarrow>
           follows k T R tr'"
    and "main cfg s ext a = (out, f, tr, res)"
  shows "follows k T R tr"
proof (rule main_invariant [where I = "follows k T R", OF _ _ _ _ _ assms(5)])
  show "follows k T R []" by (rule follows_Nil)
next
  fix tr h
  assume "follows k T R tr"
  then show "follows k T R (tr @ [(Host_init h, ext tr (Host_init h))])"
    by (rule follows_snoc_other) (rule assms(1))
next
  fix tr st
  assume "follows k T R tr"
  then show "follows k T R (tr @ [(MultiContest_init st, ext tr (MultiContest_init st))])"
    by (rule follows_snoc_other) (rule assms(2))
next
  fix tr
  assume "follows k T R tr"
  then show "follows k T R (tr @ [(create_contests, ext tr create_contests)])"
    by (rule follows_snoc_other) (rule assms(3))
next
  fix st hs rf first tr r out tr' x
  assume "follows k T R tr" and "run_one ext st hs rf first tr r = (out, tr', x)"
  then show "follows k T R tr'" by (rule assms(4))
qed

lemma main_after_run:
  assumes "main cfg s ext a = (out, f, tr, res)"
  shows "follows 1 is_store_results after_run tr"
  by (rule main_follows [OF _ _ _ _ assms])
    (simp_all only: is_store_results_iff fst_conv call.distinct not_ex simp_thms
      run_one_after_run)

lemma main_after_store:
  assumes "main cfg s ext a = (out, f, tr, res)"
  shows "follows 3 is_add_run after_store tr"
  by (rule main_follows [OF _ _ _ _ assms])
    (simp_all only: is_add_run_iff fst_conv call.distinct not_ex simp_thms
      run_one_after_store)

lemma main_after_archive:
  assumes "main cfg s ext a = (out, f, tr, res)"
  shows "follows 4 is_clean_up after_archive tr"
  by (rule main_follows [OF _ _ _ _ assms])
    (simp_all only: is_clean_up_iff fst_conv call.distinct not_ex simp_thms
      run_one_after_archive)

lemma window_nth:
  assumes "take k (drop i tr) = w" and "j < length w"
  shows "tr ! (i + j) = w ! j"
proof -
  from assms have "j < k" "j < length (drop i tr)" by auto
  then have "w ! j = drop i tr ! j" unfolding assms(1) [symmetric] by simp
  also have "\<dots> = tr ! (i + j)" using \<open>j < length (drop i tr)\<close> by simp
  finally show ?thesis by simp
qed

text \<open>
  Claim C5. In the trace of the script, a call of \<^verbatim>\<open>store_results\<close> on a runner comes
  right after the call of \<^verbatim>\<open>run_contest_remotely\<close> on the same runner, which has
  returned; and a call of \<^verbatim>\<open>add_run\<close> comes three calls after a call of \<^verbatim>\<open>store_results\<close>
  that has returned the three locations \<^verbatim>\<open>add_run\<close> is given, the calls between them being
  the \<^verbatim>\<open>HtmlGenerator\<close> constructor and the read of the timestamp of the same runner,
  which is the first argument of \<^verbatim>\<open>add_run\<close>.
\<close>

theorem C5_archive_after_run:
  assumes "main cfg s ext a = (out, f, tr, res)" and "n < length tr"
  shows "(\<forall>r. fst (tr ! n) = store_results r \<longrightarrow>
            1 \<le> n \<and>
            (\<exists>hosts resume_folder first obj.
               tr ! (n - 1) = (run_contest_remotely r hosts resume_folder first, Returned obj))) \<and>
         (\<forall>ts x y z. fst (tr ! n) = add_run ts x y z \<longrightarrow>
            3 \<le> n \<and>
            (\<exists>r urls www org obj.
               tr ! (n - 3) = (store_results r, Returned urls) \<and>
               unpack3 urls = Inr (x, y, z) \<and>
               tr ! (n - 2) = (HtmlGenerator_init www org, Returned obj) \<and>
               tr ! (n - 1) = (get_contest_timestamp_id r, Returned ts)))"
proof (intro conjI allI impI)
  fix r
  assume e: "fst (tr ! n) = store_results r"
  then have "is_store_results (tr ! n)" by (auto simp: is_store_results_iff)
  with main_after_run [OF assms(1)] assms(2)
  have n: "1 \<le> n" and w: "after_run (take 1 (drop (n - 1) tr)) (tr ! n)"
    by (simp_all add: follows_def)
  from n show "1 \<le> n" .
  from w e obtain hosts resume_folder first obj where
    t: "take 1 (drop (n - 1) tr) = [(run_contest_remotely r hosts resume_folder first, Returned obj)]"
    by (auto simp: after_run_def)
  from window_nth [OF t, of 0]
  show "\<exists>hosts resume_folder first obj.
          tr ! (n - 1) = (run_contest_remotely r hosts resume_folder first, Returned obj)"
    by simp
next
  fix ts x y z
  assume e: "fst (tr ! n) = add_run ts x y z"
  then have "is_add_run (tr ! n)" by (auto simp: is_add_run_iff)
  with main_after_store [OF assms(1)] assms(2)
  have n: "3 \<le> n" and w: "after_store (take 3 (drop (n - 3) tr)) (tr ! n)"
    by (simp_all add: follows_def)
  from n show "3 \<le> n" .
  from w e obtain r urls www org obj where
    u: "unpack3 urls = Inr (x, y, z)" and
    t: "take 3 (drop (n - 3) tr) =
          [(store_results r, Returned urls), (HtmlGenerator_init www org, Returned obj),
           (get_contest_timestamp_id r, Returned ts)]"
    by (auto simp: after_store_def)
  from n have i: "n - 3 + 1 = n - 2" "n - 3 + 2 = n - 1" by simp_all
  have "tr ! (n - 3) = (store_results r, Returned urls)"
    using window_nth [OF t, of 0] by simp
  moreover have "tr ! (n - 2) = (HtmlGenerator_init www org, Returned obj)"
    using window_nth [OF t, of 1] unfolding i by simp
  moreover have "tr ! (n - 1) = (get_contest_timestamp_id r, Returned ts)"
    using window_nth [OF t, of 2] unfolding i by simp
  ultimately show "\<exists>r urls www org obj.
          tr ! (n - 3) = (store_results r, Returned urls) \<and>
          unpack3 urls = Inr (x, y, z) \<and>
          tr ! (n - 2) = (HtmlGenerator_init www org, Returned obj) \<and>
          tr ! (n - 1) = (get_contest_timestamp_id r, Returned ts)"
    using u by blast
qed

text \<open>
  Claim C6. In the trace of the script, a call of \<^verbatim>\<open>clean_up\<close> on a runner comes four
  calls after the call of \<^verbatim>\<open>store_results\<close> on the same runner, which has returned its
  three locations, and right after the \<^verbatim>\<open>add_run\<close> for these locations, which has
  returned.
\<close>

theorem C6_clean_up_after_archive:
  assumes "main cfg s ext a = (out, f, tr, res)" and "n < length tr"
    and "fst (tr ! n) = clean_up r"
  shows "4 \<le> n \<and>
         (\<exists>urls x y z ts obj.
            tr ! (n - 4) = (store_results r, Returned urls) \<and>
            unpack3 urls = Inr (x, y, z) \<and>
            tr ! (n - 1) = (add_run ts x y z, Returned obj))"
proof -
  from assms(3) have "is_clean_up (tr ! n)" by (auto simp: is_clean_up_iff)
  with main_after_archive [OF assms(1)] assms(2)
  have n: "4 \<le> n" and w: "after_archive (take 4 (drop (n - 4) tr)) (tr ! n)"
    by (simp_all add: follows_def)
  from w assms(3) obtain urls www org obj ts x y z obj' where
    u: "unpack3 urls = Inr (x, y, z)" and
    t: "take 4 (drop (n - 4) tr) =
          [(store_results r, Returned urls), (HtmlGenerator_init www org, Returned obj),
           (get_contest_timestamp_id r, Returned ts), (add_run ts x y z, Returned obj')]"
    by (auto simp: after_archive_def)
  from n have i: "n - 4 + 3 = n - 1" by simp
  have "tr ! (n - 4) = (store_results r, Returned urls)"
    using window_nth [OF t, of 0] by simp
  moreover have "tr ! (n - 1) = (add_run ts x y z, Returned obj')"
    using window_nth [OF t, of 3] unfolding i by simp
  ultimately show ?thesis using u n by blast
qed

lemma example_read_workers:
  "read_workers example_sys example_fs example_settings =
     Inr (JArr [ JObj [(''hostname'', JStr ''h1''), (''username'', JStr ''u1''),
                    (''password'', JStr ''secret''), (''no_cpu'', JInt 4),
                    (''private_key_file'', JNull), (''private_key_password'', JNull)],
              JObj [(''hostname'', JStr ''h2''), (''username'', JStr ''u2''),
                    (''password'', JNull), (''no_cpu'', JInt 2),
                    (''private_key_file'', JStr ''id_rsa''), (''private_key_password'', JNull)] ])"
  by (simp add: read_workers_def example_settings_def dict_get_def load_json_def example_fs_def
      example_roster_def py_dict_of_def dict_merge_def dict_set_def)

lemma example_host_args:
  "host_args (JObj [(''hostname'', JStr ''h1''), (''username'', JStr ''u1''),
                    (''password'', JStr ''secret''), (''no_cpu'', JInt 4),
                    (''private_key_file'', JNull), (''private_key_password'', JNull)]) =
     Inr example_host1"
  "host_args (JObj [(''hostname'', JStr ''h2''), (''username'', JStr ''u2''),
                    (''password'', JNull), (''no_cpu'', JInt 2),
                    (''private_key_file'', JStr ''id_rsa''), (''private_key_password'', JNull)]) =
     Inr example_host2"
  by (simp_all add: host_args_def py_dict_of_def dict_merge_def dict_set_def dict_get_def
      example_host1_def example_host2_def)

lemma example_make_hosts:
  "make_hosts example_ext []
     [ JObj [(''hostname'', JStr ''h1''), (''username'', JStr ''u1''),
                    (''password'', JStr ''secret''), (''no_cpu'', JInt 4),
                    (''private_key_file'', JNull), (''private_key_password'', JNull)],
       JObj [(''hostname'', JStr ''h2''), (''username'', JStr ''u2''),
                    (''password'', JNull), (''no_cpu'', JInt 2),
                    (''private_key_file'', JStr ''id_rsa''), (''private_key_password'', JNull)] ] =
     ([(Host_init example_host1, Returned Obj_opaque),
       (Host_init example_host2, Returned Obj_opaque)], Inr [example_host1, example_host2])"
  by (simp add: example_host_args ask_def example_ext_def)

lemma example_settings_run:
  "dict_get example_settings ''resume_contest_folder'' = Some JNull"
  "dict_get (dict_del ''resume_contest_folder'' example_settings) ''www_dir'' = Some (JStr ''www'')"
  "dict_get (dict_del ''resume_contest_folder'' example_settings) ''organizer'' =
     Some (JStr ''Uni Pacman'')"
  by (simp_all add: dict_get_del) (simp_all add: example_settings_def dict_get_def)

lemma example_run_one:
  "run_one example_ext (dict_del ''resume_contest_folder'' example_settings)
     [example_host1, example_host2] JNull first tr r =
     ([Log_info_done], tr @ example_contest r first, Inr ())"
  by (simp add: run_one_def ask_def example_ext_def example_settings_run example_contest_def)

lemma example_contest_loop:
  "contest_loop example_ext (dict_del ''resume_contest_folder'' example_settings)
     [example_host1, example_host2] JNull True tr [''league1'', ''league2''] =
     ([Log_info_done, Log_info_done], tr @ example_contest ''league1'' True @ example_contest ''league2'' False,
      Inr ())"
  by (simp add: example_run_one)

lemma example_run_contests:
  "run_contests example_ext example_settings [example_host1, example_host2]
     [(Host_init example_host1, Returned Obj_opaque),
      (Host_init example_host2, Returned Obj_opaque)] =
     ([Log_info_options (dict_del ''resume_contest_folder'' example_settings),
       Log_info_done, Log_info_done], example_trace, Inr ())"
proof -
  have a: "ask example_ext tr (MultiContest_init st) =
      (tr @ [(MultiContest_init st, Returned Obj_opaque)], Returned Obj_opaque)"
    "ask example_ext tr create_contests =
      (tr @ [(create_contests, Returned (Obj_iterator [''league1'', ''league2''] None))],
       Returned (Obj_iterator [''league1'', ''league2''] None))" for tr st
    by (simp_all add: ask_def example_ext_def)
  show ?thesis
    unfolding run_contests_def example_settings_run option.case Let_def a prod.case reply.case
      iter_runners.simps sum.case example_contest_loop
    by (simp add: example_trace_def)
qed

lemma example_main:
  "main example_config example_sys example_ext example_args =
     ([Log_debug_config_loaded,
       Log_info_workers (JArr [ JObj [(''hostname'', JStr ''h1''), (''username'', JStr ''u1''),
                    (''password'', JStr ''secret''), (''no_cpu'', JInt 4),
                    (''private_key_file'', JNull), (''private_key_password'', JNull)],
              JObj [(''hostname'', JStr ''h2''), (''username'', JStr ''u2''),
                    (''password'', JNull), (''no_cpu'', JInt 2),
                    (''private_key_file'', JStr ''id_rsa''), (''private_key_password'', JNull)] ]),
       Log_info_options (dict_del ''resume_contest_folder'' example_settings),
       Log_info_done, Log_info_done],
      example_fs, example_trace, Inr ())"
  unfolding main_def example_load_settings prod.case sum.case example_read_workers
    py_iter.simps example_make_hosts example_run_contests
  by simp

lemma example_trace_entries:
  "length example_trace = 16"
  "example_trace ! 4 =
     (run_contest_remotely ''league1'' [example_host1, example_host2] JNull True, Returned Obj_opaque)"
  "example_trace ! 5 =
     (store_results ''league1'',
      Returned (Obj_tuple [JStr ''stats.json'', JStr ''replays.tar'', JStr ''logs.tar'']))"
  "example_trace ! 8 =
     (add_run (Obj_value (JStr ''league1'')) (JStr ''stats.json'') (JStr ''replays.tar'')
        (JStr ''logs.tar''), Returned Obj_opaque)"
  "example_trace ! 9 = (clean_up ''league1'', Returned Obj_opaque)"
  "example_trace ! 15 = (clean_up ''league2'', Returned Obj_opaque)"
  by (simp_all add: example_trace_def example_contest_def)

text \<open>
  The example run has two contests; the calls at positions 4, 5 and 8 of its trace.
\<close>

theorem C5_archive_after_run_witness:
  "snd (snd (main example_config example_sys example_ext example_args)) =
     (example_trace, Inr ()) \<and>
   example_trace ! 5 =
     (store_results ''league1'',
      Returned (Obj_tuple [JStr ''stats.json'', JStr ''replays.tar'', JStr ''logs.tar''])) \<and>
   example_trace ! 4 =
     (run_contest_remotely ''league1'' [example_host1, example_host2] JNull True, Returned Obj_opaque) \<and>
   example_trace ! 8 =
     (add_run (Obj_value (JStr ''league1'')) (JStr ''stats.json'') (JStr ''replays.tar'')
        (JStr ''logs.tar''), Returned Obj_opaque)"
proof -
  have "(5::nat) < length example_trace" by (simp add: example_trace_entries)
  from C5_archive_after_run [OF example_main this] example_main example_trace_entries
  show ?thesis by simp
qed

text \<open>
  The example run: \<^verbatim>\<open>clean_up\<close> of the first contest at position 9, its
  \<^verbatim>\<open>store_results\<close> at position 5.
\<close>

theorem C6_clean_up_after_archive_witness:
  "snd (snd (main example_config example_sys example_ext example_args)) =
     (example_trace, Inr ()) \<and>
   example_trace ! 9 = (clean_up ''league1'', Returned Obj_opaque) \<and>
   example_trace ! 5 =
     (store_results ''league1'',
      Returned (Obj_tuple [JStr ''stats.json'', JStr ''replays.tar'', JStr ''logs.tar'']))"
proof -
  have "(9::nat) < length example_trace" "fst (example_trace ! 9) = clean_up ''league1''"
    by (simp_all add: example_trace_entries)
  from C6_clean_up_after_archive [OF example_main this] example_main example_trace_entries
  show ?thesis by simp
qed

subsection \<open>The worker hosts\<close>

lemma host_args_fields:
  "host_args w = Inr h \<longleftrightarrow>
     subscript w ''no_cpu'' = Inr (no_cpu h) \<and>
     subscript w ''hostname'' = Inr (hostname h) \<and>
     subscript w ''username'' = Inr (username h) \<and>
     subscript w ''password'' = Inr (password h) \<and>
     subscript w ''private_key_file'' = Inr (key_filename h) \<and>
     subscript w ''private_key_password'' = Inr (key_password h)"
  by (cases h) (auto simp: host_args_def split: sum.splits)

lemma host_args_total:
  assumes "w = JObj items" and "\<forall>k\<in>set descriptor_keys. dict_get (py_dict_of items) k \<noteq> None"
  shows "\<exists>h. host_args w = Inr h"
  using assms by (auto simp: host_args_def descriptor_keys_def)

lemma make_hosts_Inr:
  assumes "make_hosts ext tr ws = (tr', Inr hosts)"
  shows "length hosts = length ws \<and>
         (\<forall>i<length ws. host_args (ws ! i) = Inr (hosts ! i)) \<and>
         (\<exists>d. tr' = tr @ d \<and> map fst d = map Host_init hosts \<and>
              (\<forall>e\<in>set d. snd e \<noteq> Raised))"
  using assms
proof (induction ws arbitrary: tr tr' hosts)
  case Nil
  then show ?case by simp
next
  case (Cons w ws)
  from Cons.prems obtain h where h: "host_args w = Inr h"
    by (cases "host_args w") simp_all
  let ?e = "(Host_init h, ext tr (Host_init h))"
  from Cons.prems h obtain obj where r: "ext tr (Host_init h) = Returned obj"
    by (cases "ext tr (Host_init h)") (simp_all add: ask_def)
  obtain t2 r2 where m: "make_hosts ext (tr @ [?e]) ws = (t2, r2)"
    by (cases "make_hosts ext (tr @ [?e]) ws")
  from Cons.prems h r m obtain hs where r2: "r2 = Inr hs" and hosts: "hosts = h # hs"
    and t2: "tr' = t2"
    by (cases r2) (simp_all add: ask_def)
  from Cons.IH [OF m [unfolded r2]] obtain d where
    l: "length hs = length ws" and
    f: "\<forall>i<length ws. host_args (ws ! i) = Inr (hs ! i)" and
    d: "t2 = (tr @ [?e]) @ d" "map fst d = map Host_init hs" "\<forall>e\<in>set d. snd e \<noteq> Raised"
    by blast
  have "\<forall>i<length (w # ws). host_args ((w # ws) ! i) = Inr (hosts ! i)"
    using f h by (auto simp: hosts nth_Cons')
  moreover have "tr' = tr @ (?e # d) \<and> map fst (?e # d) = map Host_init hosts \<and>
      (\<forall>e\<in>set (?e # d). snd e \<noteq> Raised)"
    using d r by (simp add: t2 hosts)
  moreover have "length hosts = length (w # ws)" using l hosts by simp
  ultimately show ?case by blast
qed

lemma make_hosts_Inl:
  assumes "make_hosts ext tr ws = (tr', Inl e)"
  shows "\<exists>d. tr' = tr @ d \<and> (\<forall>x\<in>set d. is_Host_init x)"
  using assms
proof (induction ws arbitrary: tr tr')
  case Nil
  then show ?case by simp
next
  case (Cons w ws)
  show ?case
  proof (cases "host_args w")
    case (Inl e')
    with Cons.prems show ?thesis by simp
  next
    case (Inr h)
    let ?e = "(Host_init h, ext tr (Host_init h))"
    show ?thesis
    proof (cases "ext tr (Host_init h)")
      case Raised
      with Cons.prems Inr have "tr' = tr @ [?e]" by (simp add: ask_def)
      then show ?thesis by (auto simp: is_Host_init_iff)
    next
      case (Returned obj)
      obtain t2 r2 where m: "make_hosts ext (tr @ [?e]) ws = (t2, r2)"
        by (cases "make_hosts ext (tr @ [?e]) ws")
      from Cons.prems Inr Returned m have "r2 = Inl e" "tr' = t2"
        by (cases r2; simp add: ask_def)+
      with Cons.IH [of "tr @ [?e]" t2] m obtain d where
        "t2 = (tr @ [?e]) @ d" "\<forall>x\<in>set d. is_Host_init x" by blast
      with \<open>tr' = t2\<close> have "tr' = tr @ (?e # d) \<and> (\<forall>x\<in>set (?e # d). is_Host_init x)"
        by (simp add: is_Host_init_iff)
      then show ?thesis by blast
    qed
  qed
qed

lemma make_hosts_total:
  assumes "\<forall>w\<in>set ws. \<exists>h. host_args w = Inr h"
    and "\<forall>t h. ext t (Host_init h) \<noteq> Raised"
  shows "\<exists>tr' hosts. make_hosts ext tr ws = (tr', Inr hosts)"
  using assms(1)
proof (induction ws arbitrary: tr)
  case Nil
  then show ?case by simp
next
  case (Cons w ws)
  then obtain h where h: "host_args w = Inr h" by auto
  from assms(2) obtain obj where r: "ext tr (Host_init h) = Returned obj"
    by (cases "ext tr (Host_init h)") auto
  from Cons obtain t2 hs where
    "make_hosts ext (tr @ [(Host_init h, ext tr (Host_init h))]) ws = (t2, Inr hs)"
    by fastforce
  with h r show ?case by (simp add: ask_def)
qed

lemma run_one_no_host:
  assumes "run_one ext st hs rf first tr r = (out, tr', x)"
  shows "\<exists>d. tr' = tr @ d \<and> (\<forall>e\<in>set d. \<not> is_Host_init e)"
  using assms
  by (auto simp: run_one_def ask_def is_Host_init_iff
      split: prod.splits reply.splits sum.splits option.splits)

lemma run_contests_trace:
  assumes "run_contests ext st hs tr = (out, tr', x)"
    and "dict_get st ''resume_contest_folder'' = Some rf"
  shows "\<exists>y rest. tr' = tr @ (MultiContest_init (dict_del ''resume_contest_folder'' st), y) # rest \<and>
           (\<forall>e\<in>set rest. \<not> is_Host_init e)"
proof -
  let ?st = "dict_del ''resume_contest_folder'' st"
  let ?m = "(MultiContest_init ?st, ext tr (MultiContest_init ?st))"
  let ?t1 = "tr @ [?m]"
  let ?c = "(create_contests, ext ?t1 create_contests)"
  define I where "I t = (\<exists>rest. t = tr @ ?m # rest \<and> (\<forall>e\<in>set rest. \<not> is_Host_init e))" for t
  have i1: "I ?t1" by (simp add: I_def)
  have i2: "I (?t1 @ [?c])" by (simp add: I_def is_Host_init_iff)
  have step: "I t'" if "I t" "run_one ext st' hs' rf' first t r = (out', t', x')"
    for st' hs' rf' first t r out' t' x'
  proof -
    from run_one_no_host [OF that(2)] obtain d where "t' = t @ d" "\<forall>e\<in>set d. \<not> is_Host_init e"
      by blast
    with that(1) show ?thesis by (auto simp: I_def)
  qed
  have "I tr'"
  proof (cases "ext tr (MultiContest_init ?st)")
    case Raised
    with assms i1 show ?thesis by (auto simp: run_contests_def ask_def Let_def)
  next
    case r1: (Returned obj1)
    show ?thesis
    proof (cases "ext ?t1 create_contests")
      case Raised
      with assms r1 i2 show ?thesis by (auto simp: run_contests_def ask_def Let_def)
    next
      case r2: (Returned contests)
      show ?thesis
      proof (cases "iter_runners contests")
        case (Inl e)
        with assms r1 r2 i2 show ?thesis by (auto simp: run_contests_def ask_def Let_def)
      next
        case (Inr p)
        obtain rs ending where p: "p = (rs, ending)" by (cases p)
        obtain o3 t3 x3 where l: "contest_loop ext ?st hs rf True (?t1 @ [?c]) rs = (o3, t3, x3)"
          by (cases "contest_loop ext ?st hs rf True (?t1 @ [?c]) rs")
        from contest_loop_invariant [of I ext ?st hs rf, OF step i2 l] have "I t3" .
        with assms r1 r2 Inr p l show ?thesis
          by (auto simp: run_contests_def ask_def Let_def split: sum.splits)
      qed
    qed
  qed
  then show ?thesis unfolding I_def by blast
qed

lemma load_settings_resume_key:
  assumes "load_settings cfg s a = (out, f, Inr settings)"
  shows "\<exists>rf. dict_get settings ''resume_contest_folder'' = Some rf"
proof -
  from load_settings_value [OF assms] obtain out1 items where
    v: "\<And>k. dict_get settings k =
       (let m = merged_value cfg s a items k
        in if k = ''split'' \<and> (case m of None \<Rightarrow> True | Some v \<Rightarrow> py_eq_int v 0)
           then Some (JInt 1) else m)"
    by blast
  have "dict_get (settings_default cfg a) ''resume_contest_folder'' = Some JNull"
    by (simp add: settings_default_def dict_get_def)
  then have "merged_value cfg s a items ''resume_contest_folder'' \<noteq> None"
    by (simp add: merged_value_def first_some_def split: option.splits)
  then show ?thesis by (auto simp: v)
qed

text \<open>
  The six keys are all read: a descriptor that has a password and no key file entry
  ends the script with \<^verbatim>\<open>KeyError\<close>.
\<close>

lemma host_args_password_only:
  "host_args (JObj [(''hostname'', JStr ''h1''), (''username'', JStr ''u1''),
                    (''password'', JStr ''secret''), (''no_cpu'', JInt 4)]) =
     Inl (KeyError ''private_key_file'')"
  by (simp add: host_args_def py_dict_of_def dict_merge_def dict_set_def dict_get_def)

lemma example_descriptors:
  "\<forall>w\<in>set [ JObj [(''hostname'', JStr ''h1''), (''username'', JStr ''u1''),
                    (''password'', JStr ''secret''), (''no_cpu'', JInt 4),
                    (''private_key_file'', JNull), (''private_key_password'', JNull)],
              JObj [(''hostname'', JStr ''h2''), (''username'', JStr ''u2''),
                    (''password'', JNull), (''no_cpu'', JInt 2),
                    (''private_key_file'', JStr ''id_rsa''), (''private_key_password'', JNull)] ].
     \<exists>items. w = JObj items \<and>
       (\<forall>k\<in>set descriptor_keys. dict_get (py_dict_of items) k \<noteq> None)"
  by (simp add: descriptor_keys_def py_dict_of_def dict_merge_def dict_set_def dict_get_def)

lemma example_ext_returns: "\<forall>t h. example_ext t (Host_init h) \<noteq> Raised"
  by (simp add: example_ext_def)

lemma load_config_returns:
  assumes "case config_path cfg a of None \<Rightarrow> items = [] | Some p \<Rightarrow> fs s p = Content (JObj items)"
    and "resume_contest_folder a = None \<or> split a = 0 \<or>
         (\<exists>v. dict_get (py_dict_of items) ''split'' = Some v \<and> py_eq_int v (split a))"
  shows "\<exists>out. load_config cfg s a = (out, Inr (JObj items))"
proof (cases "resume_contest_folder a")
  case None
  then have r: "resume_stage cfg s a = ([], Inr (JObj []))"
    by (simp add: resume_stage_def)
  show ?thesis
  proof (cases "config_file a")
    case n: None
    with None assms(1) have "items = []" by (simp add: config_path_def)
    with r n show ?thesis by (simp add: load_config_def config_stage_def)
  next
    case (Some p)
    with None assms(1) have "fs s p = Content (JObj items)" by (simp add: config_path_def)
    with r None Some show ?thesis
      by (simp add: load_config_def config_stage_def path_exists_def load_json_def)
  qed
next
  case (Some d)
  with assms(1) have c: "fs s (path_join d (DEFAULT_CONFIG_FILE cfg)) = Content (JObj items)"
    by (simp add: config_path_def)
  from assms(2) Some have "split a = 0 \<or>
         (\<exists>v. dict_get (py_dict_of items) ''split'' = Some v \<and> py_eq_int v (split a))"
    by simp
  with Some c have r: "resume_stage cfg s a = ([Log_debug_resume_loaded], Inr (JObj items))"
    by (auto simp: resume_stage_def path_exists_def load_json_def)
  obtain o2 where "config_stage s a (JObj items) = (o2, Inr (JObj items))"
    using Some by (cases "config_file a") (simp_all add: config_stage_def)
  with r show ?thesis by (simp add: load_config_def)
qed

lemma load_settings_returns:
  assumes "length (argv s) \<noteq> 1"
    and "load_config cfg s a = (out1, Inr (JObj items))"
    and "settings_cli (py_int s) a = Inr cli"
    and "\<forall>p. build_config_file a = Some p \<longrightarrow> p = [] \<or> writable s p"
  shows "\<exists>out f settings. load_settings cfg s a = (out, f, Inr settings)"
proof -
  obtain st where m: "merge_settings (settings_default cfg a) (JObj items) cli = Inr st"
    by (simp add: merge_settings_def Let_def)
  have mp: "missing_parameters st = []" by (simp add: missing_parameters_def)
  have "\<exists>o2 f. dump_settings s a st = (o2, f, Inr st)"
  proof (cases "build_config_file a")
    case None
    then show ?thesis by (simp add: dump_settings_def)
  next
    case (Some p)
    with assms(4) have "p = [] \<or> writable s p" by simp
    with Some show ?thesis by (cases "p = []") (simp_all add: dump_settings_def)
  qed
  then obtain o2 f where "dump_settings s a st = (o2, f, Inr st)" by blast
  with assms(1-3) m mp show ?thesis by (simp add: load_settings_def)
qed

lemma load_settings_returns_iff:
  assumes "length (argv s) \<noteq> 1"
    and "case config_path cfg a of None \<Rightarrow> items = [] | Some p \<Rightarrow> fs s p = Content (JObj items)"
    and "resume_contest_folder a = None \<or> split a = 0 \<or>
         (\<exists>v. dict_get (py_dict_of items) ''split'' = Some v \<and> py_eq_int v (split a))"
    and "settings_cli (py_int s) a = Inr cli"
    and "\<forall>p. build_config_file a = Some p \<longrightarrow> p = [] \<or> writable s p"
  shows "\<exists>out f settings. load_settings cfg s a = (out, f, Inr settings)"
proof -
  from load_config_returns [OF assms(2,3)] obtain out1 where
    "load_config cfg s a = (out1, Inr (JObj items))" by blast
  from load_settings_returns [OF assms(1) this assms(4,5)] show ?thesis .
qed

text \<open>
  Claim C10. \<^verbatim>\<open>load_settings\<close> returns when options were passed, the configuration file
  that is read (if any) is an object, a resume run passes no \<^verbatim>\<open>--split\<close> that differs
  from the stored one, the integer options convert and the \<^verbatim>\<open>--build-config-file\<close> (if
  any) can be written. Whenever it returns: with \<^verbatim>\<open>--upload-all\<close> the returned settings
  have \<^verbatim>\<open>upload_replays\<close> and \<^verbatim>\<open>upload_logs\<close> true, whatever the configuration file says;
  without it, each of the two is true when its own option was passed, and otherwise has
  the value of the configuration file, or false when the file does not have the key.
\<close>

theorem C10_upload_flags:
  "(length (argv s) \<noteq> 1 \<and>
    (case config_path cfg a of
       None \<Rightarrow> items0 = []
     | Some p \<Rightarrow> fs s p = Content (JObj items0)) \<and>
    (resume_contest_folder a = None \<or> split a = 0 \<or>
     (\<exists>v. dict_get (py_dict_of items0) ''split'' = Some v \<and> py_eq_int v (split a))) \<and>
    (\<exists>cli. settings_cli (py_int s) a = Inr cli) \<and>
    (\<forall>p. build_config_file a = Some p \<longrightarrow> p = [] \<or> writable s p) \<longrightarrow>
    (\<exists>out f settings. load_settings cfg s a = (out, f, Inr settings))) \<and>
   (\<forall>out f settings. load_settings cfg s a = (out, f, Inr settings) \<longrightarrow>
      (\<exists>items.
           (case config_path cfg a of
              None \<Rightarrow> items = []
            | Some p \<Rightarrow> fs s p = Content (JObj items)) \<and>
           (upload_all a \<longrightarrow>
              dict_get settings ''upload_replays'' = Some (JBool True) \<and>
              dict_get settings ''upload_logs'' = Some (JBool True)) \<and>
           (\<not> upload_all a \<longrightarrow>
              dict_get settings ''upload_replays'' =
                (if upload_replays a then Some (JBool True)
                 else first_some (dict_get (py_dict_of items) ''upload_replays'')
                        (Some (JBool False))) \<and>
              dict_get settings ''upload_logs'' =
                (if upload_logs a then Some (JBool True)
                 else first_some (dict_get (py_dict_of items) ''upload_logs'')
                        (Some (JBool False))))))"
proof (intro conjI impI allI)
  assume h: "length (argv s) \<noteq> 1 \<and>
    (case config_path cfg a of
       None \<Rightarrow> items0 = []
     | Some p \<Rightarrow> fs s p = Content (JObj items0)) \<and>
    (resume_contest_folder a = None \<or> split a = 0 \<or>
     (\<exists>v. dict_get (py_dict_of items0) ''split'' = Some v \<and> py_eq_int v (split a))) \<and>
    (\<exists>cli. settings_cli (py_int s) a = Inr cli) \<and>
    (\<forall>p. build_config_file a = Some p \<longrightarrow> p = [] \<or> writable s p)"
  then obtain cli where "settings_cli (py_int s) a = Inr cli" by blast
  with h show "\<exists>out f settings. load_settings cfg s a = (out, f, Inr settings)"
    by (intro load_settings_returns_iff [where items = items0 and cli = cli]) simp_all
next
  fix out f settings
  assume l: "load_settings cfg s a = (out, f, Inr settings)"
  from load_settings_config_items [OF l] obtain items where
    c: "case config_path cfg a of None \<Rightarrow> items = [] | Some p \<Rightarrow> fs s p = Content (JObj items)"
    and v: "\<And>k. dict_get settings k =
       (let m = merged_value cfg s a items k
        in if k = ''split'' \<and> (case m of None \<Rightarrow> True | Some v \<Rightarrow> py_eq_int v 0)
           then Some (JInt 1) else m)"
    by blast
  have d: "dict_get (settings_default cfg a) ''upload_replays'' = Some (JBool (upload_replays a))"
    "dict_get (settings_default cfg a) ''upload_logs'' = Some (JBool (upload_logs a))"
    by (simp_all add: settings_default_def dict_get_def)
  have r: "dict_get settings ''upload_replays'' =
      first_some (flag_value (upload_all a \<or> upload_replays a))
        (first_some (dict_get (py_dict_of items) ''upload_replays'') (Some (JBool (upload_replays a))))"
    by (simp add: v merged_value_def cli_value_upload_replays d)
  have l: "dict_get settings ''upload_logs'' =
      first_some (flag_value (upload_all a \<or> upload_logs a))
        (first_some (dict_get (py_dict_of items) ''upload_logs'') (Some (JBool (upload_logs a))))"
    by (simp add: v merged_value_def cli_value_upload_logs d)
  show "\<exists>items.
           (case config_path cfg a of
              None \<Rightarrow> items = []
            | Some p \<Rightarrow> fs s p = Content (JObj items)) \<and>
           (upload_all a \<longrightarrow>
              dict_get settings ''upload_replays'' = Some (JBool True) \<and>
              dict_get settings ''upload_logs'' = Some (JBool True)) \<and>
           (\<not> upload_all a \<longrightarrow>
              dict_get settings ''upload_replays'' =
                (if upload_replays a then Some (JBool True)
                 else first_some (dict_get (py_dict_of items) ''upload_replays'')
                        (Some (JBool False))) \<and>
              dict_get settings ''upload_logs'' =
                (if upload_logs a then Some (JBool True)
                 else first_some (dict_get (py_dict_of items) ''upload_logs'')
                        (Some (JBool False))))"
    using c by (intro exI [of _ items]) (simp add: r l flag_value_def when_value_def)
qed

text \<open>
  The example run passes \<^verbatim>\<open>--upload-all\<close> and reads a file with \<^verbatim>\<open>upload_replays\<close> false:
  \<^verbatim>\<open>load_settings\<close> returns, with both flags true.
\<close>

theorem C10_upload_flags_witness:
  "load_settings example_config example_sys example_args =
     ([Log_debug_config_loaded], example_fs, Inr example_settings) \<and>
   upload_all example_args \<and>
   example_fs ''c.json'' = Content (JObj [(''split'', JInt 0), (''organizer'', JStr ''RMIT''),
                       (''www_dir'', JStr ''www''), (''upload_replays'', JBool False)]) \<and>
   dict_get example_settings ''upload_replays'' = Some (JBool True) \<and>
   dict_get example_settings ''upload_logs'' = Some (JBool True)"
proof -
  have "upload_all example_args \<and>
   example_fs ''c.json'' = Content (JObj [(''split'', JInt 0), (''organizer'', JStr ''RMIT''),
                       (''www_dir'', JStr ''www''), (''upload_replays'', JBool False)]) \<and>
   dict_get example_settings ''upload_replays'' = Some (JBool True) \<and>
   dict_get example_settings ''upload_logs'' = Some (JBool True)"
    by (simp add: example_settings_def dict_get_def example_args_def default_args_def
        example_fs_def)
  with C10_upload_flags [where s = example_sys and cfg = example_config and a = example_args]
    example_load_settings
  show ?thesis by simp
qed






lemma ignored_load_config:
  "load_config example_config ignored_sys ignored_args =
     ([Log_debug_resume_loaded, Log_warning_config_ignored],
      Inr (JObj [(''teams_root'', JStr ''teamsA''),
                 (''fixed_layout_seeds'', JArr [JStr ''contest02cCapture'']),
                 (''split'', JInt 2), (''www_dir'', JStr ''www''),
                 (''workers_file'', JStr ''workers.json'')]))"
  by (simp add: load_config_def resume_stage_def config_stage_def ignored_args_def
      resume_args_def default_args_def ignored_sys_def resume_sys_def resume_fs_def
      path_exists_def load_json_def example_config_def path_join_def py_dict_of_def
      dict_merge_def dict_set_def dict_get_def)

lemma ignored_load_settings:
  "load_settings example_config ignored_sys ignored_args =
     ([Log_debug_resume_loaded, Log_warning_config_ignored], resume_fs, Inr resume_settings)"
proof -
  have "length (argv ignored_sys) \<noteq> 1" "py_int ignored_sys = decimal"
    by (simp_all add: ignored_sys_def resume_sys_def)
  moreover have "missing_parameters resume_settings = []"
    by (simp add: missing_parameters_def)
  moreover have "dump_settings ignored_sys ignored_args resume_settings =
      ([], resume_fs, Inr resume_settings)"
    by (simp add: dump_settings_def ignored_args_def resume_args_def default_args_def
        ignored_sys_def resume_sys_def)
  ultimately show ?thesis
    by (simp add: load_settings_def ignored_load_config)
      (simp add: ignored_args_def settings_cli_config_file settings_default_config_file
        resume_settings_cli resume_merge)
qed

text \<open>
  Claim C3 as stated fails: with a resume folder, a \<^verbatim>\<open>--config-file\<close> that does not exist
  does not stop the process. The file is never looked at, a warning is logged and
  \<^verbatim>\<open>load_settings\<close> returns the settings of the resumed run.
\<close>

theorem C3_missing_config_ignored_counterexample:
  "resume_contest_folder ignored_args = Some ''run1'' \<and>
   config_file ignored_args = Some ''nowhere.json'' \<and>
   fs ignored_sys ''nowhere.json'' = Missing \<and>
   load_settings example_config ignored_sys ignored_args =
     ([Log_debug_resume_loaded, Log_warning_config_ignored], resume_fs, Inr resume_settings)"
proof -
  have "resume_contest_folder ignored_args = Some ''run1'' \<and>
      config_file ignored_args = Some ''nowhere.json'' \<and>
      fs ignored_sys ''nowhere.json'' = Missing"
    by (simp add: ignored_args_def resume_args_def ignored_sys_def resume_sys_def resume_fs_def)
  with ignored_load_settings show ?thesis by simp
qed




lemma short_load_config:
  "load_config example_config short_sys example_args =
     ([Log_debug_config_loaded],
      Inr (JObj [(''split'', JInt 0), (''organizer'', JStr ''RMIT''),
                 (''www_dir'', JStr ''www''), (''upload_replays'', JBool False)]))"
  by (simp add: load_config_def resume_stage_def config_stage_def example_args_def
      default_args_def short_sys_def short_fs_def example_sys_def example_fs_def
      path_exists_def load_json_def)

lemma short_load_settings:
  "load_settings example_config short_sys example_args =
     ([Log_debug_config_loaded], short_fs, Inr example_settings)"
proof -
  have "length (argv short_sys) \<noteq> 1" "py_int short_sys = decimal"
    by (simp_all add: short_sys_def example_sys_def)
  moreover have "missing_parameters example_settings = []"
    by (simp add: missing_parameters_def)
  moreover have "dump_settings short_sys example_args example_settings =
      ([], short_fs, Inr example_settings)"
    by (simp add: dump_settings_def example_args_def default_args_def short_sys_def)
  ultimately show ?thesis
    by (simp add: load_settings_def short_load_config example_settings_cli example_merge)
qed

lemma short_read_workers:
  "read_workers short_sys short_fs example_settings =
     Inr (JArr [ JObj [(''hostname'', JStr ''h1''), (''username'', JStr ''u1''),
                    (''password'', JStr ''secret''), (''no_cpu'', JInt 4)] ])"
  by (simp add: read_workers_def example_settings_def dict_get_def load_json_def short_fs_def
      short_roster_def py_dict_of_def dict_merge_def dict_set_def)

lemma short_main:
  "main example_config short_sys example_ext example_args =
     ([Log_debug_config_loaded,
       Log_info_workers (JArr [ JObj [(''hostname'', JStr ''h1''), (''username'', JStr ''u1''),
                    (''password'', JStr ''secret''), (''no_cpu'', JInt 4)] ])],
      short_fs, [], Inl (KeyError ''private_key_file''))"
  unfolding main_def short_load_settings prod.case sum.case short_read_workers
  by (simp add: host_args_password_only)

text \<open>
  Claim C7 as stated fails: the credentials are not alternatives. For a descriptor with
  host identity, a password and a CPU count, and no key entries, no \<^verbatim>\<open>Host\<close> is
  constructed: reading \<^verbatim>\<open>w["private_key_file"]\<close> raises \<^verbatim>\<open>KeyError\<close> and the script ends
  without a call.
\<close>

theorem C7_password_only_counterexample:
  "fs short_sys ''workers.json'' =
     Content (JObj [(''workers'',
       JArr [ JObj [(''hostname'', JStr ''h1''), (''username'', JStr ''u1''),
                    (''password'', JStr ''secret''), (''no_cpu'', JInt 4)] ])]) \<and>
   dict_get example_settings ''workers_file'' = Some (JStr ''workers.json'') \<and>
   main example_config short_sys example_ext example_args =
     ([Log_debug_config_loaded,
       Log_info_workers (JArr [ JObj [(''hostname'', JStr ''h1''), (''username'', JStr ''u1''),
                    (''password'', JStr ''secret''), (''no_cpu'', JInt 4)] ])],
      short_fs, [], Inl (KeyError ''private_key_file''))"
proof -
  have "fs short_sys ''workers.json'' =
     Content (JObj [(''workers'',
       JArr [ JObj [(''hostname'', JStr ''h1''), (''username'', JStr ''u1''),
                    (''password'', JStr ''secret''), (''no_cpu'', JInt 4)] ])]) \<and>
   dict_get example_settings ''workers_file'' = Some (JStr ''workers.json'')"
    by (simp add: short_sys_def short_fs_def short_roster_def example_settings_def dict_get_def)
  with short_main show ?thesis by simp
qed

text \<open>
  Claim C7, as amended. Let the roster's \<^verbatim>\<open>"workers"\<close> be the list \<open>ws\<close>. When every
  descriptor is an object with the six keys \<^verbatim>\<open>no_cpu\<close>, \<^verbatim>\<open>hostname\<close>, \<^verbatim>\<open>username\<close>,
  \<^verbatim>\<open>password\<close>, \<^verbatim>\<open>private_key_file\<close> and \<^verbatim>\<open>private_key_password\<close> (the credential that is
  not used being present, as \<^verbatim>\<open>null\<close> say) and no \<^verbatim>\<open>Host\<close> construction raises, the script
  gets past the construction of the hosts and goes on to create the \<^verbatim>\<open>MultiContest\<close>.
  Whenever it gets there, its first \<open>length ws\<close> calls are the \<^verbatim>\<open>Host\<close> constructions, all
  returned, one for each descriptor in order, each given the six values of its
  descriptor, and no \<^verbatim>\<open>Host\<close> is constructed after them.
\<close>

theorem C7_one_host_per_descriptor:
  assumes "main cfg s ext a = (out, f, tr, res)"
    and "load_settings cfg s a = (out0, f0, Inr settings)"
    and "read_workers s f0 settings = Inr (JArr ws)"
  shows "((\<exists>e\<in>set tr. \<exists>st. fst e = MultiContest_init st) \<longrightarrow>
            (\<exists>hosts. length hosts = length ws \<and>
               map fst (take (length ws) tr) = map Host_init hosts \<and>
               (\<forall>e\<in>set (take (length ws) tr). snd e \<noteq> Raised) \<and>
               (\<forall>e\<in>set (drop (length ws) tr). \<not> is_Host_init e) \<and>
               (\<forall>i<length ws.
                  subscript (ws ! i) ''no_cpu'' = Inr (no_cpu (hosts ! i)) \<and>
                  subscript (ws ! i) ''hostname'' = Inr (hostname (hosts ! i)) \<and>
                  subscript (ws ! i) ''username'' = Inr (username (hosts ! i)) \<and>
                  subscript (ws ! i) ''password'' = Inr (password (hosts ! i)) \<and>
                  subscript (ws ! i) ''private_key_file'' = Inr (key_filename (hosts ! i)) \<and>
                  subscript (ws ! i) ''private_key_password'' = Inr (key_password (hosts ! i))))) \<and>
         ((\<forall>w\<in>set ws. \<exists>items. w = JObj items \<and>
              (\<forall>k\<in>set descriptor_keys. dict_get (py_dict_of items) k \<noteq> None)) \<and>
          (\<forall>t h. ext t (Host_init h) \<noteq> Raised) \<longrightarrow>
            (\<exists>e\<in>set tr. \<exists>st. fst e = MultiContest_init st))"
proof -
  obtain t1 r1 where m: "make_hosts ext [] ws = (t1, r1)"
    by (cases "make_hosts ext [] ws")
  show ?thesis
  proof (cases r1)
    case (Inl e)
    from assms m Inl have tr: "tr = t1" by (simp add: main_def)
    from make_hosts_Inl [OF m [unfolded Inl]] tr have h: "\<forall>x\<in>set tr. is_Host_init x" by simp
    have no: "\<not> (\<exists>e\<in>set tr. \<exists>st. fst e = MultiContest_init st)"
    proof
      assume "\<exists>e\<in>set tr. \<exists>st. fst e = MultiContest_init st"
      then obtain e st where "e \<in> set tr" "fst e = MultiContest_init st" by blast
      with h show False by (auto simp: is_Host_init_iff)
    qed
    have "\<not> ((\<forall>w\<in>set ws. \<exists>items. w = JObj items \<and>
              (\<forall>k\<in>set descriptor_keys. dict_get (py_dict_of items) k \<noteq> None)) \<and>
          (\<forall>t h. ext t (Host_init h) \<noteq> Raised))"
    proof
      assume a: "(\<forall>w\<in>set ws. \<exists>items. w = JObj items \<and>
              (\<forall>k\<in>set descriptor_keys. dict_get (py_dict_of items) k \<noteq> None)) \<and>
          (\<forall>t h. ext t (Host_init h) \<noteq> Raised)"
      then have "\<forall>w\<in>set ws. \<exists>h. host_args w = Inr h"
        using host_args_total by blast
      with a make_hosts_total [of ws ext "[]"] m Inl show False by auto
    qed
    with no show ?thesis by blast
  next
    case (Inr hosts)
    from make_hosts_Inr [OF m [unfolded Inr]] obtain d where
      l: "length hosts = length ws" and
      fl: "\<forall>i<length ws. host_args (ws ! i) = Inr (hosts ! i)" and
      d: "t1 = d" "map fst d = map Host_init hosts" "\<forall>e\<in>set d. snd e \<noteq> Raised"
      by auto
    from d(2) l have ld: "length d = length ws" by (metis length_map)
    from load_settings_resume_key [OF assms(2)] obtain rf where
      rf: "dict_get settings ''resume_contest_folder'' = Some rf" by blast
    obtain o2 t2 r2 where rc: "run_contests ext settings hosts t1 = (o2, t2, r2)"
      by (cases "run_contests ext settings hosts t1")
    from assms m Inr rc have tr: "tr = t2" by (simp add: main_def)
    from run_contests_trace [OF rc rf] tr d(1) obtain y rest where
      t: "tr = d @ (MultiContest_init (dict_del ''resume_contest_folder'' settings), y) # rest"
      and r: "\<forall>e\<in>set rest. \<not> is_Host_init e"
      by blast
    from t ld have tk: "take (length ws) tr = d"
      and dr: "drop (length ws) tr =
        (MultiContest_init (dict_del ''resume_contest_folder'' settings), y) # rest"
      by simp_all
    have "\<forall>e\<in>set (drop (length ws) tr). \<not> is_Host_init e"
      unfolding dr using r by (simp add: is_Host_init_iff)
    moreover have "\<exists>e\<in>set tr. \<exists>st. fst e = MultiContest_init st"
      unfolding t by simp
    ultimately show ?thesis
      using l d(2,3) fl unfolding tk host_args_fields by blast
  qed
qed

text \<open>
  The example roster has a host with a password and a host with a key file, the
  credential that is not used being \<^verbatim>\<open>null\<close>.
\<close>

theorem C7_one_host_per_descriptor_witness:
  "snd (snd (main example_config example_sys example_ext example_args)) =
     (example_trace, Inr ()) \<and>
   example_fs ''workers.json'' = Content example_roster \<and>
   take 3 example_trace =
     [ (Host_init example_host1, Returned Obj_opaque),
       (Host_init example_host2, Returned Obj_opaque),
       (MultiContest_init (dict_del ''resume_contest_folder'' example_settings),
        Returned Obj_opaque) ] \<and>
   hostname example_host1 = JStr ''h1'' \<and> password example_host1 = JStr ''secret'' \<and>
   hostname example_host2 = JStr ''h2'' \<and> key_filename example_host2 = JStr ''id_rsa''"
proof -
  have "take 3 example_trace =
     [ (Host_init example_host1, Returned Obj_opaque),
       (Host_init example_host2, Returned Obj_opaque),
       (MultiContest_init (dict_del ''resume_contest_folder'' example_settings),
        Returned Obj_opaque) ] \<and>
   hostname example_host1 = JStr ''h1'' \<and> password example_host1 = JStr ''secret'' \<and>
   hostname example_host2 = JStr ''h2'' \<and> key_filename example_host2 = JStr ''id_rsa'' \<and>
   example_fs ''workers.json'' = Content example_roster"
    by (simp add: example_trace_def example_host1_def example_host2_def example_fs_def)
  with C7_one_host_per_descriptor [OF example_main example_load_settings example_read_workers]
    example_descriptors example_ext_returns example_main
  show ?thesis by simp
qed

end
